theory Spec2Isabelle
  imports Complex_Main
begin

section \<open>JavaScript values\<close>

text \<open>
  The program is \<^verbatim>\<open>src/index.js\<close> (lines 1 to 202; the second listing in that file is a
  later variant that adds a \<^verbatim>\<open>notes\<close> field to every day and is otherwise the same).
  Texts are \<open>string\<close>s: one \<open>char\<close> per UTF-16 code unit below U+0100.

  A number is NaN, an infinity, negative zero or a finite value. Every double has a
  representative; the finite values are kept as rationals, so the type has more finite
  values than there are doubles, and nothing below computes with them beyond passing
  them on and testing whether they are integers.
\<close>

datatype jsnum = NaN | PosInfinity | NegInfinity | NegZero | Finite rat

text \<open>
  The values \<^verbatim>\<open>JSON.parse\<close> produces, and \<^verbatim>\<open>undefined\<close>. An object is the list of
  its own properties in insertion order; its prototype is \<^verbatim>\<open>Object.prototype\<close>.
\<close>

datatype jsval =
    JUndefined
  | JNull
  | JBool bool
  | JNum jsnum
  | JStr string
  | JArr "jsval list"
  | JObj "(string \<times> jsval) list"

text \<open>
  What the program can throw: a \<^verbatim>\<open>TypeError\<close> (reading a property of
  \<^verbatim>\<open>undefined\<close> or \<^verbatim>\<open>null\<close>, converting an object with no usable
  \<^verbatim>\<open>toString\<close>), a \<^verbatim>\<open>SyntaxError\<close> of \<^verbatim>\<open>JSON.parse\<close>, the
  \<^verbatim>\<open>Error\<close> with a message that \<^verbatim>\<open>generateCourseFromGemini\<close> raises, and a
  failure of the call to the external model.
\<close>

datatype error = TypeError | SyntaxError | Error string | ModelCallError

definition andThen :: "error + 'a \<Rightarrow> ('a \<Rightarrow> error + 'b) \<Rightarrow> error + 'b" where
  "andThen m f = (case m of Inl e \<Rightarrow> Inl e | Inr x \<Rightarrow> f x)"

fun mapE :: "('a \<Rightarrow> error + 'b) \<Rightarrow> 'a list \<Rightarrow> error + 'b list" where
  "mapE f [] = Inr []"
| "mapE f (x # xs) = andThen (f x) (\<lambda>y. andThen (mapE f xs) (\<lambda>ys. Inr (y # ys)))"

text \<open>\<^verbatim>\<open>xs.map((x, i) => f(x, i))\<close>, the index counted from \<open>i\<close>.\<close>

fun mapIdx :: "(nat \<Rightarrow> 'a \<Rightarrow> error + 'b) \<Rightarrow> nat \<Rightarrow> 'a list \<Rightarrow> error + 'b list" where
  "mapIdx f i [] = Inr []"
| "mapIdx f i (x # xs) =
     andThen (f i x) (\<lambda>y. andThen (mapIdx f (Suc i) xs) (\<lambda>ys. Inr (y # ys)))"

text \<open>
  \<^verbatim>\<open>v.k\<close> for the property names the program reads (\<^verbatim>\<open>days\<close>, \<^verbatim>\<open>title\<close>,
  \<^verbatim>\<open>topic\<close>, ...): none of them is defined on a prototype, so the read gives the own
  property of an object and \<^verbatim>\<open>undefined\<close> on every other value, and it throws on
  \<^verbatim>\<open>undefined\<close> and \<^verbatim>\<open>null\<close>.
\<close>

fun getProp :: "jsval \<Rightarrow> string \<Rightarrow> error + jsval" where
  "getProp JUndefined k = Inl TypeError"
| "getProp JNull k = Inl TypeError"
| "getProp (JObj kvs) k = Inr (case map_of kvs k of Some v \<Rightarrow> v | None \<Rightarrow> JUndefined)"
| "getProp v k = Inr JUndefined"

definition isArray :: "jsval \<Rightarrow> bool" where
  "isArray v = (case v of JArr xs \<Rightarrow> True | _ \<Rightarrow> False)"

definition elems :: "jsval \<Rightarrow> jsval list" where
  "elems v = (case v of JArr xs \<Rightarrow> xs | _ \<Rightarrow> [])"

section \<open>Texts and numbers\<close>

text \<open>White space as \<^verbatim>\<open>trim\<close> and the regular expression class \<^verbatim>\<open>\s\<close> see it.\<close>

definition isSpace :: "char \<Rightarrow> bool" where
  "isSpace c = (c \<in> set [CHR 0x09, CHR 0x0A, CHR 0x0B, CHR 0x0C, CHR 0x0D, CHR 0x20, CHR 0xA0])"

definition trim :: "string \<Rightarrow> string" where
  "trim s = rev (dropWhile isSpace (rev (dropWhile isSpace s)))"

definition isDigit :: "char \<Rightarrow> bool" where
  "isDigit c = (c \<in> set ''0123456789'')"

definition digitVal :: "char \<Rightarrow> nat" where
  "digitVal c = of_char c - 48"

definition decValue :: "string \<Rightarrow> nat" where
  "decValue s = foldl (\<lambda>n c. 10 * n + digitVal c) 0 s"

fun showNat :: "nat \<Rightarrow> string" where
  "showNat n = (if n < 10 then [''0123456789'' ! n] else showNat (n div 10) @ [''0123456789'' ! (n mod 10)])"

declare showNat.simps [simp del]

text \<open>
  The two conversions between texts and numbers that depend on the rounding of doubles
  are parameters of the model: the text of a finite number that is not an integer below
  \<open>10^21\<close>, and the number a numeric literal denotes when it is not a plain integer below
  \<open>2^53\<close>. Everything else of \<^verbatim>\<open>String\<close> and \<^verbatim>\<open>Number\<close> is written out.
\<close>

record numeric =
  format_fraction :: "rat \<Rightarrow> string"
  round_literal :: "string \<Rightarrow> jsnum"

definition NumberToString :: "numeric \<Rightarrow> jsnum \<Rightarrow> string" where
  "NumberToString P n =
     (case n of
        NaN \<Rightarrow> ''NaN''
      | PosInfinity \<Rightarrow> ''Infinity''
      | NegInfinity \<Rightarrow> ''-Infinity''
      | NegZero \<Rightarrow> ''0''
      | Finite q \<Rightarrow>
          if of_int \<lfloor>q\<rfloor> = q \<and> \<bar>q\<bar> < 10 ^ 21
          then (if q < 0 then ''-'' else '''') @ showNat (nat \<lfloor>\<bar>q\<bar>\<rfloor>)
          else format_fraction P q)"

text \<open>The grammar \<^verbatim>\<open>StrNumericLiteral\<close> of \<^verbatim>\<open>Number(text)\<close>.\<close>

definition exponentPart :: "string \<Rightarrow> bool" where
  "exponentPart s =
     (case s of
        [] \<Rightarrow> False
      | e # r \<Rightarrow>
          (e = CHR ''e'' \<or> e = CHR ''E'') \<and>
          (let d = (case r of [] \<Rightarrow> [] | c # r' \<Rightarrow> if c = CHR ''+'' \<or> c = CHR ''-'' then r' else r)
           in d \<noteq> [] \<and> list_all isDigit d))"

definition unsignedDecimal :: "string \<Rightarrow> bool" where
  "unsignedDecimal s =
     (s = ''Infinity'' \<or>
      (let ip = takeWhile isDigit s; r1 = dropWhile isDigit s in
       case r1 of
         [] \<Rightarrow> ip \<noteq> []
       | c # r2 \<Rightarrow>
           if c = CHR ''.''
           then (let fp = takeWhile isDigit r2; r3 = dropWhile isDigit r2
                 in (ip \<noteq> [] \<or> fp \<noteq> []) \<and> (r3 = [] \<or> exponentPart r3))
           else ip \<noteq> [] \<and> exponentPart r1))"

definition nonDecimalInteger :: "string \<Rightarrow> bool" where
  "nonDecimalInteger s =
     (case s of
        z # x # ds \<Rightarrow>
          z = CHR ''0'' \<and> ds \<noteq> [] \<and>
          (if x \<in> set ''bB'' then list_all (\<lambda>c. c \<in> set ''01'') ds
           else if x \<in> set ''oO'' then list_all (\<lambda>c. c \<in> set ''01234567'') ds
           else if x \<in> set ''xX'' then list_all (\<lambda>c. c \<in> set ''0123456789abcdefABCDEF'') ds
           else False)
      | _ \<Rightarrow> False)"

definition isStrNumericLiteral :: "string \<Rightarrow> bool" where
  "isStrNumericLiteral s =
     (nonDecimalInteger s \<or>
      (case s of
         [] \<Rightarrow> False
       | c # r \<Rightarrow> if c = CHR ''+'' \<or> c = CHR ''-'' then unsignedDecimal r else unsignedDecimal s))"

definition StringToNumber :: "numeric \<Rightarrow> string \<Rightarrow> jsnum" where
  "StringToNumber P s =
     (let t = trim s in
      if t = [] then Finite 0
      else if isStrNumericLiteral t
      then (if list_all isDigit t \<and> decValue t < 2 ^ 53 then Finite (of_nat (decValue t))
            else round_literal P t)
      else NaN)"

text \<open>
  \<^verbatim>\<open>String(v)\<close>. An array is joined with commas, \<^verbatim>\<open>undefined\<close> and \<^verbatim>\<open>null\<close>
  elements giving the empty text. For an object the conversion looks for a callable
  \<^verbatim>\<open>toString\<close>, then a callable \<^verbatim>\<open>valueOf\<close> that returns a primitive: an own
  property \<^verbatim>\<open>toString\<close> of a parsed object is never callable and hides the inherited
  one, and the inherited \<^verbatim>\<open>valueOf\<close> returns the object, so the conversion throws;
  without it the inherited \<^verbatim>\<open>toString\<close> answers \<^verbatim>\<open>[object Object]\<close>.
\<close>

fun toStr :: "numeric \<Rightarrow> jsval \<Rightarrow> error + string"
  and joinElems :: "numeric \<Rightarrow> jsval list \<Rightarrow> error + string" where
  "toStr P JUndefined = Inr ''undefined''"
| "toStr P JNull = Inr ''null''"
| "toStr P (JBool b) = Inr (if b then ''true'' else ''false'')"
| "toStr P (JNum n) = Inr (NumberToString P n)"
| "toStr P (JStr s) = Inr s"
| "toStr P (JArr xs) = joinElems P xs"
| "toStr P (JObj kvs) =
     (if ''toString'' \<in> set (map fst kvs) then Inl TypeError else Inr ''[object Object]'')"
| "joinElems P [] = Inr []"
| "joinElems P (x # xs) =
     (case (if x = JUndefined \<or> x = JNull then Inr [] else toStr P x) of
        Inl e \<Rightarrow> Inl e
      | Inr s \<Rightarrow>
          (case joinElems P xs of
             Inl e \<Rightarrow> Inl e
           | Inr r \<Rightarrow> Inr (if xs = [] then s else s @ '','' @ r)))"

text \<open>
  \<^verbatim>\<open>Number(v)\<close>. An array or object is first converted to a primitive, \<^verbatim>\<open>valueOf\<close>
  before \<^verbatim>\<open>toString\<close>: the inherited \<^verbatim>\<open>valueOf\<close> returns the object itself (an own one
  is not callable), so the text of \<^verbatim>\<open>toString\<close> decides, as for \<^verbatim>\<open>String\<close>.
\<close>

definition toNum :: "numeric \<Rightarrow> jsval \<Rightarrow> error + jsnum" where
  "toNum P v =
     (case v of
        JUndefined \<Rightarrow> Inr NaN
      | JNull \<Rightarrow> Inr (Finite 0)
      | JBool b \<Rightarrow> Inr (Finite (if b then 1 else 0))
      | JNum n \<Rightarrow> Inr n
      | JStr s \<Rightarrow> Inr (StringToNumber P s)
      | _ \<Rightarrow> andThen (toStr P v) (\<lambda>s. Inr (StringToNumber P s)))"

section \<open>The course and the fallback template\<close>

record DaySpec =
  day :: jsnum
  day_title :: string
  goals :: "string list"
  concepts :: "string list"
  exercises :: "string list"

record ResourceSpec =
  res_title :: string
  res_type :: jsval
  url :: string
  description :: string

record Course =
  title :: string
  duration :: string
  summary :: string
  totalLessons :: jsnum
  estimatedTime :: string
  days :: "DaySpec list"
  resources :: "ResourceSpec list"

text \<open>\<^verbatim>\<open>dummyCourse.days\<close> and \<^verbatim>\<open>dummyCourse.resources\<close> (lines 25 to 81).\<close>

definition dummyDays :: "DaySpec list" where
  "dummyDays =
     [\<lparr>day = Finite 1, day_title = ''Foundation & Setup'',
       goals = [''Understand the basics'', ''Set up environment'', ''First exercise''],
       concepts = [''Core terminology'', ''Why it matters'', ''Basic principles''],
       exercises = [''Install tools'', ''Terminology quiz'', ''Hello world task'']\<rparr>,
      \<lparr>day = Finite 2, day_title = ''Building Fundamentals'',
       goals = [''Master essentials'', ''Practice techniques'', ''Build confidence''],
       concepts = [''Key tools'', ''Best practices'', ''Common patterns''],
       exercises = [''Guided tasks'', ''CLI practice'', ''Mini project'']\<rparr>,
      \<lparr>day = Finite 3, day_title = ''Intermediate Concepts'',
       goals = [''Explore advanced features'', ''Connect concepts'', ''Apply skills''],
       concepts = [''Advanced methods'', ''Integration'', ''Optimization''],
       exercises = [''Problem set'', ''Integration task'', ''Perf tuning'']\<rparr>,
      \<lparr>day = Finite 4, day_title = ''Practical Application'',
       goals = [''Build a full project'', ''Test & validate'', ''Debug issues''],
       concepts = [''Project planning'', ''Testing'', ''Debugging''],
       exercises = [''Build project'', ''Write tests'', ''Fix bugs'']\<rparr>,
      \<lparr>day = Finite 5, day_title = ''Mastery & Next Steps'',
       goals = [''Solidify knowledge'', ''Explore advanced topics'', ''Roadmap''],
       concepts = [''Advanced architectures'', ''Industry practices'', ''Trends''],
       exercises = [''Capstone'', ''Peer review'', ''Learning plan'']\<rparr>]"

definition dummyResources :: "ResourceSpec list" where
  "dummyResources =
     [\<lparr>res_title = ''Complete Guide - YouTube'', res_type = JStr ''video'',
       url = ''https://youtube.com'', description = ''Comprehensive video series''\<rparr>,
      \<lparr>res_title = ''Ultimate Handbook'', res_type = JStr ''pdf'',
       url = ''https://example.com'', description = ''Step-by-step reference guide''\<rparr>,
      \<lparr>res_title = ''Community Blog'', res_type = JStr ''article'',
       url = ''https://medium.com'', description = ''Insights, tutorials, and discussions''\<rparr>]"

section \<open>normalizeCourse (lines 93 to 127)\<close>

definition safe :: "jsval \<Rightarrow> jsval \<Rightarrow> jsval" where
  "safe v d = (if v = JUndefined \<or> v = JNull then d else v)"

text \<open>\<^verbatim>\<open>Array.isArray(v) ? v.map(String) : []\<close>\<close>

definition stringList :: "numeric \<Rightarrow> jsval \<Rightarrow> error + string list" where
  "stringList P v = (if isArray v then mapE (toStr P) (elems v) else Inr [])"

text \<open>The body of \<^verbatim>\<open>days.map((d, i) => ...)\<close>, lines 97 to 103.\<close>

definition normDay :: "numeric \<Rightarrow> nat \<Rightarrow> jsval \<Rightarrow> error + DaySpec" where
  "normDay P i d =
     andThen (getProp d ''day'') (\<lambda>dv.
     andThen (toNum P (safe dv (JNum (Finite (of_nat (i + 1)))))) (\<lambda>n.
     andThen (getProp d ''title'') (\<lambda>tv.
     andThen (toStr P (safe tv (JStr (''Day '' @ NumberToString P (Finite (of_nat (i + 1))))))) (\<lambda>t.
     andThen (getProp d ''goals'') (\<lambda>gv.
     andThen (stringList P gv) (\<lambda>g.
     andThen (getProp d ''concepts'') (\<lambda>cv.
     andThen (stringList P cv) (\<lambda>c.
     andThen (getProp d ''exercises'') (\<lambda>ev.
     andThen (stringList P ev) (\<lambda>e.
     Inr \<lparr>day = n, day_title = t, goals = g, concepts = c, exercises = e\<rparr>))))))))))"

text \<open>The body of \<^verbatim>\<open>resources.map((r) => ...)\<close>, lines 106 to 111.\<close>

definition normResource :: "numeric \<Rightarrow> jsval \<Rightarrow> error + ResourceSpec" where
  "normResource P r =
     andThen (getProp r ''title'') (\<lambda>tv.
     andThen (toStr P (safe tv (JStr ''Resource''))) (\<lambda>t.
     andThen (getProp r ''type'') (\<lambda>ty.
     andThen (getProp r ''url'') (\<lambda>uv.
     andThen (toStr P (safe uv (JStr ''https://example.com''))) (\<lambda>u.
     andThen (getProp r ''description'') (\<lambda>dv.
     andThen (toStr P (safe dv (JStr ''''))) (\<lambda>ds.
     Inr \<lparr>res_title = t,
          res_type = (if ty \<in> set [JStr ''video'', JStr ''article'', JStr ''pdf''] then ty
                      else JStr ''article''),
          url = u, description = ds\<rparr>)))))))"

definition normalizeCourse :: "numeric \<Rightarrow> jsval \<Rightarrow> string \<Rightarrow> error + Course" where
  "normalizeCourse P data topic =
     andThen (getProp data ''days'') (\<lambda>dv.
     andThen (mapIdx (normDay P) 0 (if isArray dv then elems dv else [])) (\<lambda>normDays.
     andThen (getProp data ''resources'') (\<lambda>rv.
     andThen (mapE (normResource P) (if isArray rv then elems rv else [])) (\<lambda>normResources.
     andThen (getProp data ''title'') (\<lambda>tv.
     andThen (toStr P (safe tv (JStr (''Master '' @ topic)))) (\<lambda>t.
     andThen (getProp data ''duration'') (\<lambda>duv.
     andThen (toStr P (safe duv (JStr ''5 Days''))) (\<lambda>du.
     andThen (getProp data ''summary'') (\<lambda>sv.
     andThen (toStr P (safe sv (JStr
        (''A comprehensive mini-course designed to take you from beginner to confident in ''
          @ topic @ ''.'')))) (\<lambda>su.
     andThen (getProp data ''totalLessons'') (\<lambda>lv.
     andThen (toNum P (safe lv (JNum (Finite 15)))) (\<lambda>tl.
     andThen (getProp data ''estimatedTime'') (\<lambda>ev.
     andThen (toStr P (safe ev (JStr ''2-3 hours/day''))) (\<lambda>et.
     Inr \<lparr>title = t, duration = du, summary = su, totalLessons = tl, estimatedTime = et,
          days = (if length normDays \<noteq> 0 then normDays else dummyDays),
          resources = (if length normResources \<noteq> 0 then normResources else dummyResources)\<rparr>
     ))))))))))))))"

section \<open>extractJson (lines 85 to 90)\<close>

text \<open>
  The two regular expressions are sequences of three kinds of item: a character compared
  without regard to case (flag \<^verbatim>\<open>i\<close>), the greedy \<^verbatim>\<open>\s*\<close>, and the lazy capturing
  group \<^verbatim>\<open>([\s\S]*?)\<close>. \<open>rxMatch\<close> is the backtracking matcher at one start position:
  a greedy item tries the longer match first, a lazy one the shorter, and each falls back
  to the other when the rest of the pattern fails. It returns the text of the group.
\<close>

datatype rxItem = Lit char | Spaces | LazyGroup

definition upperChar :: "char \<Rightarrow> char" where
  "upperChar c =
     (case map_of (zip ''abcdefghijklmnopqrstuvwxyz'' ''ABCDEFGHIJKLMNOPQRSTUVWXYZ'') c of
        Some u \<Rightarrow> u
      | None \<Rightarrow> c)"

fun rxMatch :: "rxItem list \<Rightarrow> string \<Rightarrow> string \<Rightarrow> string option" where
  "rxMatch [] s cap = Some cap"
| "rxMatch (Lit c # items) s cap =
     (case s of
        [] \<Rightarrow> None
      | x # xs \<Rightarrow> if upperChar x = upperChar c then rxMatch items xs cap else None)"
| "rxMatch (Spaces # items) s cap =
     (case s of
        [] \<Rightarrow> rxMatch items [] cap
      | x # xs \<Rightarrow>
          if isSpace x
          then (case rxMatch (Spaces # items) xs cap of
                  Some r \<Rightarrow> Some r
                | None \<Rightarrow> rxMatch items s cap)
          else rxMatch items s cap)"
| "rxMatch (LazyGroup # items) s cap =
     (case rxMatch items s cap of
        Some r \<Rightarrow> Some r
      | None \<Rightarrow>
          (case s of
             [] \<Rightarrow> None
           | x # xs \<Rightarrow> rxMatch (LazyGroup # items) xs (cap @ [x])))"

text \<open>\<^verbatim>\<open>text.match(re)\<close>: the leftmost start position at which the pattern matches.\<close>

fun rxSearch :: "rxItem list \<Rightarrow> string \<Rightarrow> string option" where
  "rxSearch items [] = rxMatch items [] []"
| "rxSearch items (x # xs) =
     (case rxMatch items (x # xs) [] of
        Some cap \<Rightarrow> Some cap
      | None \<Rightarrow> rxSearch items xs)"

definition fence :: string where
  "fence = [CHR 0x60, CHR 0x60, CHR 0x60]"

text \<open>\<^verbatim>\<open>/```json\s*([\s\S]*?)\s*```/i\<close> and \<^verbatim>\<open>/```\s*([\s\S]*?)\s*```/i\<close>\<close>

definition jsonFenceRx :: "rxItem list" where
  "jsonFenceRx = map Lit (fence @ ''json'') @ [Spaces, LazyGroup, Spaces] @ map Lit fence"

definition plainFenceRx :: "rxItem list" where
  "plainFenceRx = map Lit fence @ [Spaces, LazyGroup, Spaces] @ map Lit fence"

definition extractJson :: "string \<Rightarrow> string" where
  "extractJson text =
     trim (case rxSearch jsonFenceRx text of
             Some cap \<Rightarrow> cap
           | None \<Rightarrow>
               (case rxSearch plainFenceRx text of
                  Some cap \<Rightarrow> cap
                | None \<Rightarrow> text))"

section \<open>JSON.stringify, replaceAll and JSON.parse\<close>

text \<open>\<^verbatim>\<open>dummyCourse\<close> (lines 18 to 82) as the object the program builds it as.\<close>

definition dayObject :: "DaySpec \<Rightarrow> jsval" where
  "dayObject d =
     JObj [(''day'', JNum (day d)), (''title'', JStr (day_title d)),
           (''goals'', JArr (map JStr (goals d))),
           (''concepts'', JArr (map JStr (concepts d))),
           (''exercises'', JArr (map JStr (exercises d)))]"

definition resourceObject :: "ResourceSpec \<Rightarrow> jsval" where
  "resourceObject r =
     JObj [(''title'', JStr (res_title r)), (''type'', res_type r),
           (''url'', JStr (url r)), (''description'', JStr (description r))]"

definition dummyCourse :: jsval where
  "dummyCourse =
     JObj [(''title'', JStr ''Master {{TOPIC}}''),
           (''duration'', JStr ''5 Days''),
           (''summary'', JStr (''A comprehensive mini-course designed to take you from beginner to confident in {{TOPIC}}.''
              @ '' This structured learning path combines theory with practical exercises.'')),
           (''totalLessons'', JNum (Finite 15)),
           (''estimatedTime'', JStr ''2-3 hours/day''),
           (''days'', JArr (map dayObject dummyDays)),
           (''resources'', JArr (map resourceObject dummyResources))]"

definition hexDigit :: "nat \<Rightarrow> char" where
  "hexDigit n = ''0123456789abcdef'' ! n"

text \<open>\<^verbatim>\<open>QuoteJSONString\<close>: the escapes of \<^verbatim>\<open>JSON.stringify\<close>.\<close>

definition quoteChar :: "char \<Rightarrow> string" where
  "quoteChar c =
     (if c = CHR 0x22 then [CHR 0x5C, CHR 0x22]
      else if c = CHR 0x5C then [CHR 0x5C, CHR 0x5C]
      else if c = CHR 0x08 then [CHR 0x5C, CHR ''b'']
      else if c = CHR 0x0C then [CHR 0x5C, CHR ''f'']
      else if c = CHR 0x0A then [CHR 0x5C, CHR ''n'']
      else if c = CHR 0x0D then [CHR 0x5C, CHR ''r'']
      else if c = CHR 0x09 then [CHR 0x5C, CHR ''t'']
      else if (of_char c :: nat) < 32
      then [CHR 0x5C, CHR ''u'', CHR ''0'', CHR ''0'', hexDigit (of_char c div 16), hexDigit (of_char c mod 16)]
      else [c])"

definition quoteString :: "string \<Rightarrow> string" where
  "quoteString s = [CHR 0x22] @ concat (map quoteChar s) @ [CHR 0x22]"

fun commaSep :: "string list \<Rightarrow> string" where
  "commaSep [] = []"
| "commaSep [x] = x"
| "commaSep (x # y # ys) = x @ '','' @ commaSep (y # ys)"

text \<open>
  \<^verbatim>\<open>JSON.stringify(v)\<close> with no indentation; \<open>None\<close> is the result \<^verbatim>\<open>undefined\<close>. A
  property whose value is \<^verbatim>\<open>undefined\<close> is left out, an \<^verbatim>\<open>undefined\<close> element is
  written \<^verbatim>\<open>null\<close>, and so is a number that is not finite. Properties are written in
  list order (\<^verbatim>\<open>dummyCourse\<close> has no integer-like key, which would come first).
\<close>

fun stringify :: "numeric \<Rightarrow> jsval \<Rightarrow> string option"
  and stringifyElems :: "numeric \<Rightarrow> jsval list \<Rightarrow> string list"
  and stringifyProps :: "numeric \<Rightarrow> (string \<times> jsval) list \<Rightarrow> string list" where
  "stringify P JUndefined = None"
| "stringify P JNull = Some ''null''"
| "stringify P (JBool b) = Some (if b then ''true'' else ''false'')"
| "stringify P (JNum n) =
     Some (case n of
             NaN \<Rightarrow> ''null'' | PosInfinity \<Rightarrow> ''null'' | NegInfinity \<Rightarrow> ''null''
           | _ \<Rightarrow> NumberToString P n)"
| "stringify P (JStr s) = Some (quoteString s)"
| "stringify P (JArr xs) = Some (''['' @ commaSep (stringifyElems P xs) @ '']'')"
| "stringify P (JObj kvs) = Some (''{'' @ commaSep (stringifyProps P kvs) @ ''}'')"
| "stringifyElems P [] = []"
| "stringifyElems P (x # xs) =
     (case stringify P x of None \<Rightarrow> ''null'' | Some t \<Rightarrow> t) # stringifyElems P xs"
| "stringifyProps P [] = []"
| "stringifyProps P ((k, v) # kvs) =
     (case stringify P v of
        None \<Rightarrow> stringifyProps P kvs
      | Some t \<Rightarrow> (quoteString k @ '':'' @ t) # stringifyProps P kvs)"

text \<open>
  \<^verbatim>\<open>GetSubstitution\<close>: in the replacement text of \<^verbatim>\<open>replaceAll\<close> a dollar sign followed
  by a dollar sign, a backquote, an ampersand or a quote stands for a dollar sign, the
  text before the match, the match and the text after the match; with a text pattern
  there are no groups, so every other dollar sign stands for itself.
\<close>

fun getSubstitution :: "string \<Rightarrow> string \<Rightarrow> string \<Rightarrow> string \<Rightarrow> string" where
  "getSubstitution matched pre post [] = []"
| "getSubstitution matched pre post [c] = [c]"
| "getSubstitution matched pre post (c # d # t) =
     (if c = CHR ''$'' then
        (if d = CHR ''$'' then CHR ''$'' # getSubstitution matched pre post t
         else if d = CHR 0x60 then pre @ getSubstitution matched pre post t
         else if d = CHR ''&'' then matched @ getSubstitution matched pre post t
         else if d = CHR 0x27 then post @ getSubstitution matched pre post t
         else c # getSubstitution matched pre post (d # t))
      else c # getSubstitution matched pre post (d # t))"

text \<open>
  \<^verbatim>\<open>str.replaceAll(pat, repl)\<close> for a non-empty text \<open>pat\<close>: the matches are found from
  left to right without overlap; \<open>pre\<close> is the part of \<open>str\<close> already passed.
\<close>

function replaceFrom :: "string \<Rightarrow> string \<Rightarrow> string \<Rightarrow> string \<Rightarrow> string" where
  "replaceFrom pat repl pre s =
     (if pat \<noteq> [] \<and> take (length pat) s = pat
      then getSubstitution pat pre (drop (length pat) s) repl
           @ replaceFrom pat repl (pre @ pat) (drop (length pat) s)
      else (case s of
              [] \<Rightarrow> []
            | c # cs \<Rightarrow> c # replaceFrom pat repl (pre @ [c]) cs))"
  by pat_completeness auto
termination
proof (relation "measure (\<lambda>(pat, repl, pre, s). length s)", goal_cases)
  case 1
  show ?case by simp
next
  case (2 pat repl pre s)
  then show ?case by (cases s) auto
next
  case 3
  then show ?case by simp
qed

declare replaceFrom.simps [simp del]

definition replaceAll :: "string \<Rightarrow> string \<Rightarrow> string \<Rightarrow> string" where
  "replaceAll str pat repl = replaceFrom pat repl [] str"

text \<open>
  \<^verbatim>\<open>JSON.parse\<close>. \<open>parseChars\<close> reads a string after its opening quote and returns
  the text with what follows the closing quote. A \<^verbatim>\<open>\u\<close> escape names a code unit;
  one above U+00FF has no \<open>char\<close> and is kept modulo 256, so the parser accepts exactly
  the JSON texts and is exact on the texts whose escapes stay below U+0100.
\<close>

definition isJsonSpace :: "char \<Rightarrow> bool" where
  "isJsonSpace c = (c \<in> set [CHR 0x20, CHR 0x09, CHR 0x0A, CHR 0x0D])"

definition skipWs :: "string \<Rightarrow> string" where
  "skipWs s = dropWhile isJsonSpace s"

definition hexVal :: "char \<Rightarrow> nat option" where
  "hexVal c = map_of (zip ''0123456789abcdefABCDEF''
     [0, 1, 2, 3, 4, 5, 6, 7, 8, 9, 10, 11, 12, 13, 14, 15, 10, 11, 12, 13, 14, 15]) c"

definition unescape :: "char \<Rightarrow> char option" where
  "unescape c = map_of
     [(CHR 0x22, CHR 0x22), (CHR 0x5C, CHR 0x5C), (CHR ''/'', CHR ''/''), (CHR ''b'', CHR 0x08),
      (CHR ''f'', CHR 0x0C), (CHR ''n'', CHR 0x0A), (CHR ''r'', CHR 0x0D), (CHR ''t'', CHR 0x09)] c"

fun parseChars :: "string \<Rightarrow> (string \<times> string) option" where
  "parseChars [] = None"
| "parseChars (c # cs) =
     (if c = CHR 0x22 then Some ([], cs)
      else if c = CHR 0x5C then
        (case cs of
           [] \<Rightarrow> None
         | e # es \<Rightarrow>
             if e = CHR ''u'' then
               (case es of
                  h1 # h2 # h3 # h4 # r \<Rightarrow>
                    (case (hexVal h1, hexVal h2, hexVal h3, hexVal h4) of
                       (Some a, Some b, Some c, Some d) \<Rightarrow>
                         map_option (\<lambda>(t, rest). (char_of (4096 * a + 256 * b + 16 * c + d) # t, rest))
                           (parseChars r)
                     | _ \<Rightarrow> None)
                | _ \<Rightarrow> None)
             else
               (case unescape e of
                  None \<Rightarrow> None
                | Some x \<Rightarrow> map_option (\<lambda>(t, rest). (x # t, rest)) (parseChars es)))
      else if (of_char c :: nat) < 32 then None
      else map_option (\<lambda>(t, rest). (c # t, rest)) (parseChars cs))"

text \<open>
  The number at the start of a text: \<^verbatim>\<open>-? (0 | [1-9][0-9]*) (. [0-9]+)? ([eE] [+-]? [0-9]+)?\<close>,
  returned as its text with what follows it.
\<close>

definition scanNumber :: "string \<Rightarrow> (string \<times> string) option" where
  "scanNumber s =
     (let sign = takeWhile (\<lambda>c. c = CHR ''-'') (take 1 s);
          r0 = drop (length sign) s;
          ip = (if take 1 r0 = ''0'' then ''0'' else takeWhile isDigit r0);
          r1 = drop (length ip) r0;
          fp = (if take 1 r1 = ''.'' then CHR ''.'' # takeWhile isDigit (drop 1 r1) else []);
          r2 = drop (length fp) r1;
          es = (if take 1 r2 = ''e'' \<or> take 1 r2 = ''E''
                then take 1 r2 @ takeWhile (\<lambda>c. c = CHR ''+'' \<or> c = CHR ''-'') (take 1 (drop 1 r2))
                else []);
          ep = (if es = [] then [] else es @ takeWhile isDigit (drop (length es) r2));
          r3 = drop (length ep) r2
      in if ip = [] \<or> length fp = 1 \<or> (es \<noteq> [] \<and> ep = es) then None
         else Some (sign @ ip @ fp @ ep, r3))"

text \<open>The number a numeric literal denotes.\<close>

definition literalValue :: "numeric \<Rightarrow> string \<Rightarrow> jsnum" where
  "literalValue P t =
     (if t \<noteq> [] \<and> list_all isDigit t \<and> decValue t < 2 ^ 53 then Finite (of_nat (decValue t))
      else round_literal P t)"

text \<open>\<^verbatim>\<open>obj[k] = v\<close> while an object is built: a repeated key keeps its place and takes the new value.\<close>

fun setProp :: "string \<Rightarrow> jsval \<Rightarrow> (string \<times> jsval) list \<Rightarrow> (string \<times> jsval) list" where
  "setProp k v [] = [(k, v)]"
| "setProp k v ((k', v') # kvs) = (if k' = k then (k, v) # kvs else (k', v') # setProp k v kvs)"

text \<open>
  The recursive descent: \<open>parseValue\<close> reads one value, \<open>parseElems\<close> the elements of an
  array after its bracket, \<open>parseMembers\<close> the members of an object after its brace, each
  with what follows. The tests \<open>length r < length s\<close> are there for the termination proof
  only: what is left after a value or a key is always shorter (\<open>parseValue_shorter\<close>,
  \<open>parseChars_shorter\<close>), so the equations hold without them (\<open>parseElems_unguarded\<close>,
  \<open>parseMembers_unguarded\<close>).
\<close>

function parseValue :: "numeric \<Rightarrow> string \<Rightarrow> (jsval \<times> string) option"
  and parseElems :: "numeric \<Rightarrow> string \<Rightarrow> (jsval list \<times> string) option"
  and parseMembers :: "numeric \<Rightarrow> (string \<times> jsval) list \<Rightarrow> string \<Rightarrow> (jsval \<times> string) option" where
  "parseValue P s =
     (case skipWs s of
        [] \<Rightarrow> None
      | c # cs \<Rightarrow>
          if c = CHR ''{'' then
            (case skipWs cs of
               [] \<Rightarrow> None
             | d # ds \<Rightarrow> if d = CHR ''}'' then Some (JObj [], ds) else parseMembers P [] cs)
          else if c = CHR ''['' then
            (case skipWs cs of
               [] \<Rightarrow> None
             | d # ds \<Rightarrow>
                 if d = CHR '']'' then Some (JArr [], ds)
                 else map_option (\<lambda>(vs, r). (JArr vs, r)) (parseElems P cs))
          else if c = CHR 0x22 then map_option (\<lambda>(t, r). (JStr t, r)) (parseChars cs)
          else if take 4 (c # cs) = ''true'' then Some (JBool True, drop 4 (c # cs))
          else if take 5 (c # cs) = ''false'' then Some (JBool False, drop 5 (c # cs))
          else if take 4 (c # cs) = ''null'' then Some (JNull, drop 4 (c # cs))
          else map_option (\<lambda>(t, r). (JNum (literalValue P t), r)) (scanNumber (c # cs)))"
| "parseElems P s =
     (case parseValue P s of
        None \<Rightarrow> None
      | Some (v, r) \<Rightarrow>
          (case skipWs r of
             [] \<Rightarrow> None
           | d # ds \<Rightarrow>
               if d = CHR '']'' then Some ([v], ds)
               else if d = CHR '','' \<and> length ds < length s
               then map_option (\<lambda>(vs, r'). (v # vs, r')) (parseElems P ds)
               else None))"
| "parseMembers P acc s =
     (case skipWs s of
        [] \<Rightarrow> None
      | q # cs \<Rightarrow>
          if q = CHR 0x22 then
            (case parseChars cs of
               None \<Rightarrow> None
             | Some (k, r) \<Rightarrow>
                 (case skipWs r of
                    [] \<Rightarrow> None
                  | c # r1 \<Rightarrow>
                      if c = CHR '':'' \<and> length r1 < length s then
                        (case parseValue P r1 of
                           None \<Rightarrow> None
                         | Some (v, r2) \<Rightarrow>
                             (case skipWs r2 of
                                [] \<Rightarrow> None
                              | d # ds \<Rightarrow>
                                  if d = CHR ''}'' then Some (JObj (setProp k v acc), ds)
                                  else if d = CHR '','' \<and> length ds < length s
                                  then parseMembers P (setProp k v acc) ds
                                  else None))
                      else None))
          else None)"
  by pat_completeness auto
termination
proof (relation "measure (\<lambda>x. case x of
          Inl (P, s) \<Rightarrow> 2 * length s
        | Inr (Inl (P, s)) \<Rightarrow> 2 * length s + 1
        | Inr (Inr (P, acc, s)) \<Rightarrow> 2 * length s + 1)", goal_cases)
  case 1
  show ?case by simp
next
  case (2 P s c cs d ds)
  have "length (skipWs s) \<le> length s"
    by (simp add: skipWs_def length_dropWhile_le)
  with 2 show ?case by simp
next
  case (3 P s c cs d ds)
  have "length (skipWs s) \<le> length s"
    by (simp add: skipWs_def length_dropWhile_le)
  with 3 show ?case by simp
qed simp_all

declare parseValue.simps [simp del] parseElems.simps [simp del] parseMembers.simps [simp del]

definition JSON_parse :: "numeric \<Rightarrow> string \<Rightarrow> error + jsval" where
  "JSON_parse P s =
     (case parseValue P s of
        None \<Rightarrow> Inl SyntaxError
      | Some (v, r) \<Rightarrow> if skipWs r = [] then Inr v else Inl SyntaxError)"

section \<open>The request handler (lines 130 to 197)\<close>

text \<open>
  The external model is a parameter: \<open>gemini topic\<close> is what the call of lines 131 to 167
  gives for the prompt built from \<open>topic\<close>, the text of the answer or a failure.
\<close>

definition generateCourseFromGemini ::
    "numeric \<Rightarrow> (string \<Rightarrow> error + string) \<Rightarrow> string \<Rightarrow> error + jsval" where
  "generateCourseFromGemini P gemini topic =
     andThen (gemini topic) (\<lambda>raw.
       case JSON_parse P (extractJson raw) of
         Inl e \<Rightarrow> Inl (Error ''Invalid JSON from model'')
       | Inr parsed \<Rightarrow> Inr parsed)"

text \<open>\<^verbatim>\<open>JSON.parse(JSON.stringify(dummyCourse).replaceAll("{{TOPIC}}", topic))\<close>\<close>

definition fallbackCourse :: "numeric \<Rightarrow> string \<Rightarrow> error + jsval" where
  "fallbackCourse P topic =
     (case stringify P dummyCourse of
        None \<Rightarrow> Inl TypeError
      | Some t \<Rightarrow> JSON_parse P (replaceAll t ''{{TOPIC}}'' topic))"

definition falsy :: "jsval \<Rightarrow> bool" where
  "falsy v =
     (case v of
        JUndefined \<Rightarrow> True
      | JNull \<Rightarrow> True
      | JBool b \<Rightarrow> \<not> b
      | JNum n \<Rightarrow> n = NaN \<or> n = NegZero \<or> n = Finite 0
      | JStr s \<Rightarrow> s = []
      | _ \<Rightarrow> False)"

definition typeOf :: "jsval \<Rightarrow> string" where
  "typeOf v =
     (case v of
        JUndefined \<Rightarrow> ''undefined''
      | JBool b \<Rightarrow> ''boolean''
      | JNum n \<Rightarrow> ''number''
      | JStr s \<Rightarrow> ''string''
      | _ \<Rightarrow> ''object'')"

definition strOf :: "jsval \<Rightarrow> string" where
  "strOf v = (case v of JStr s \<Rightarrow> s | _ \<Rightarrow> [])"

text \<open>
  What the handler does with a request: it answers with a status and a body, or its
  promise is rejected with an error it did not catch and it sends no answer.
\<close>

datatype body = CourseBody Course | ErrorBody string

datatype outcome = Responded nat body | Rejected error

text \<open>
  \<^verbatim>\<open>app.post("/generate-course", ...)\<close> on the parsed request body. The second component
  lists the topics for which the external model was called.
\<close>

definition postGenerateCourse ::
    "numeric \<Rightarrow> (string \<Rightarrow> error + string) \<Rightarrow> jsval \<Rightarrow> outcome \<times> string list" where
  "postGenerateCourse P gemini reqBody =
     (case getProp reqBody ''topic'' of
        Inl e \<Rightarrow> (Rejected e, [])
      | Inr topic \<Rightarrow>
          if falsy topic \<or> typeOf topic \<noteq> ''string''
          then (Responded 400 (ErrorBody ''Topic is required (string)''), [])
          else
            (case andThen (generateCourseFromGemini P gemini (strOf topic))
                    (\<lambda>data. normalizeCourse P data (strOf topic)) of
               Inr normalized \<Rightarrow> (Responded 200 (CourseBody normalized), [strOf topic])
             | Inl err \<Rightarrow>
                 (case andThen (fallbackCourse P (strOf topic))
                         (\<lambda>fallback. normalizeCourse P fallback (strOf topic)) of
                    Inr normalized \<Rightarrow> (Responded 200 (CourseBody normalized), [strOf topic])
                  | Inl e \<Rightarrow> (Rejected e, [strOf topic]))))"

section \<open>When normalizeCourse returns\<close>

text \<open>
  \<^verbatim>\<open>String(v)\<close> and \<^verbatim>\<open>Number(v)\<close> return exactly on the values in which no object that
  is converted has an own property \<^verbatim>\<open>toString\<close>.
\<close>

fun convertible :: "jsval \<Rightarrow> bool" where
  "convertible (JArr xs) = list_all convertible xs"
| "convertible (JObj kvs) = (''toString'' \<notin> set (map fst kvs))"
| "convertible v = True"

definition nullish :: "jsval \<Rightarrow> bool" where
  "nullish v = (v = JUndefined \<or> v = JNull)"

text \<open>The value of \<^verbatim>\<open>v.k\<close> where the read does not throw.\<close>

definition field :: "jsval \<Rightarrow> string \<Rightarrow> jsval" where
  "field v k = (case getProp v k of Inr x \<Rightarrow> x | Inl e \<Rightarrow> JUndefined)"

definition textsOk :: "jsval \<Rightarrow> bool" where
  "textsOk v = list_all convertible (elems v)"

definition dayOk :: "jsval \<Rightarrow> bool" where
  "dayOk d =
     (\<not> nullish d \<and> convertible (field d ''day'') \<and> convertible (field d ''title'')
      \<and> textsOk (field d ''goals'') \<and> textsOk (field d ''concepts'')
      \<and> textsOk (field d ''exercises''))"

definition resourceOk :: "jsval \<Rightarrow> bool" where
  "resourceOk r =
     (\<not> nullish r \<and> convertible (field r ''title'') \<and> convertible (field r ''url'')
      \<and> convertible (field r ''description''))"

text \<open>
  The candidates on which \<^verbatim>\<open>normalizeCourse\<close> returns: not \<^verbatim>\<open>undefined\<close> or
  \<^verbatim>\<open>null\<close>, no \<^verbatim>\<open>undefined\<close> or \<^verbatim>\<open>null\<close> element in an array \<^verbatim>\<open>days\<close> or
  \<^verbatim>\<open>resources\<close>, and every value given to \<^verbatim>\<open>String\<close> or \<^verbatim>\<open>Number\<close> convertible.
\<close>

definition tolerated :: "jsval \<Rightarrow> bool" where
  "tolerated data =
     (\<not> nullish data
      \<and> list_all dayOk (elems (field data ''days''))
      \<and> list_all resourceOk (elems (field data ''resources''))
      \<and> convertible (field data ''title'') \<and> convertible (field data ''duration'')
      \<and> convertible (field data ''summary'') \<and> convertible (field data ''totalLessons'')
      \<and> convertible (field data ''estimatedTime''))"

text \<open>A result that throws nothing but a TypeError.\<close>

definition typeErrorOnly :: "error + 'a \<Rightarrow> bool" where
  "typeErrorOnly m = (case m of Inl e \<Rightarrow> e = TypeError | Inr x \<Rightarrow> True)"

text \<open>The course \<^verbatim>\<open>normalizeCourse\<close> builds when the candidate has none of the fields.\<close>

definition defaultCourse :: "string \<Rightarrow> Course" where
  "defaultCourse topic =
     \<lparr>title = ''Master '' @ topic, duration = ''5 Days'',
      summary = ''A comprehensive mini-course designed to take you from beginner to confident in ''
        @ topic @ ''.'',
      totalLessons = Finite 15, estimatedTime = ''2-3 hours/day'',
      days = dummyDays, resources = dummyResources\<rparr>"

section \<open>Candidates that are a course\<close>

text \<open>
  A candidate represents a course when every field of the course is present in it with
  its declared type and that value, whatever the order of its properties and whatever else
  it holds: texts are strings, numbers are numbers, lists of texts are arrays of strings,
  the type of a resource is one of the three strings, and \<^verbatim>\<open>days\<close> and \<^verbatim>\<open>resources\<close>
  are arrays of candidates that represent the days and the resources.
\<close>

definition representsDay :: "jsval \<Rightarrow> DaySpec \<Rightarrow> bool" where
  "representsDay v d =
     (getProp v ''day'' = Inr (JNum (day d))
      \<and> getProp v ''title'' = Inr (JStr (day_title d))
      \<and> getProp v ''goals'' = Inr (JArr (map JStr (goals d)))
      \<and> getProp v ''concepts'' = Inr (JArr (map JStr (concepts d)))
      \<and> getProp v ''exercises'' = Inr (JArr (map JStr (exercises d))))"

definition representsResource :: "jsval \<Rightarrow> ResourceSpec \<Rightarrow> bool" where
  "representsResource v r =
     (getProp v ''title'' = Inr (JStr (res_title r))
      \<and> getProp v ''type'' = Inr (res_type r)
      \<and> res_type r \<in> set [JStr ''video'', JStr ''article'', JStr ''pdf'']
      \<and> getProp v ''url'' = Inr (JStr (url r))
      \<and> getProp v ''description'' = Inr (JStr (description r)))"

definition representsCourse :: "jsval \<Rightarrow> Course \<Rightarrow> bool" where
  "representsCourse v c =
     (getProp v ''title'' = Inr (JStr (title c))
      \<and> getProp v ''duration'' = Inr (JStr (duration c))
      \<and> getProp v ''summary'' = Inr (JStr (summary c))
      \<and> getProp v ''totalLessons'' = Inr (JNum (totalLessons c))
      \<and> getProp v ''estimatedTime'' = Inr (JStr (estimatedTime c))
      \<and> (case getProp v ''days'' of
            Inr (JArr dvs) \<Rightarrow> list_all2 representsDay dvs (days c)
          | _ \<Rightarrow> False)
      \<and> (case getProp v ''resources'' of
            Inr (JArr rvs) \<Rightarrow> list_all2 representsResource rvs (resources c)
          | _ \<Rightarrow> False))"

section \<open>extractJson in the words of the specification\<close>

text \<open>
  The specification of \<^verbatim>\<open>extractJson\<close>: the inner content of the first fenced block when
  there is one, a fence tagged \<^verbatim>\<open>json\<close> looked for before an untagged one, and the
  trimmed text otherwise. A fenced block opens at the first occurrence of the opener,
  compared without regard to case; its inner content is what stands between the opener
  and the next fence, without the white space around it; and there is no block when no
  fence follows the first opener.
\<close>

definition ciPrefix :: "string \<Rightarrow> string \<Rightarrow> bool" where
  "ciPrefix p s = (length p \<le> length s \<and> map upperChar (take (length p) s) = map upperChar p)"

text \<open>The text that follows the first occurrence of the opener.\<close>

fun afterOpener :: "string \<Rightarrow> string \<Rightarrow> string option" where
  "afterOpener opener [] = (if opener = [] then Some [] else None)"
| "afterOpener opener (x # xs) =
     (if ciPrefix opener (x # xs) then Some (drop (length opener) (x # xs))
      else afterOpener opener xs)"

text \<open>The text that stands before the first fence.\<close>

fun beforeFence :: "string \<Rightarrow> string option" where
  "beforeFence [] = None"
| "beforeFence (x # xs) =
     (if take 3 (x # xs) = fence then Some [] else map_option ((#) x) (beforeFence xs))"

definition fencedBlock :: "string \<Rightarrow> string \<Rightarrow> string option" where
  "fencedBlock opener text =
     (case afterOpener opener text of
        None \<Rightarrow> None
      | Some body \<Rightarrow> map_option trim (beforeFence body))"

definition extractJsonSpec :: "string \<Rightarrow> string" where
  "extractJsonSpec text =
     (case fencedBlock (fence @ ''json'') text of
        Some inner \<Rightarrow> inner
      | None \<Rightarrow>
          (case fencedBlock fence text of
             Some inner \<Rightarrow> inner
           | None \<Rightarrow> trim text))"

text \<open>
  For the comparison with the matcher: whether the closing part \<^verbatim>\<open>\s*```\<close> of the
  patterns matches at the start of a text, the shortest prefix after which it does, and a
  text without the white space at its end.
\<close>

definition closes :: "string \<Rightarrow> bool" where
  "closes s = (take 3 (dropWhile isSpace s) = fence)"

fun lazyCap :: "string \<Rightarrow> string option" where
  "lazyCap [] = None"
| "lazyCap (x # xs) = (if closes (x # xs) then Some [] else map_option ((#) x) (lazyCap xs))"

definition rstrip :: "string \<Rightarrow> string" where
  "rstrip s = rev (dropWhile isSpace (rev s))"

text \<open>
  An instance of the two deferred conversions for evaluating the model on given inputs;
  the inputs evaluated in this theory hold integers below \<open>2^53\<close> only and reach neither.
\<close>

definition numeric0 :: numeric where
  "numeric0 = \<lparr>format_fraction = (\<lambda>q. ''''), round_literal = (\<lambda>t. NaN)\<rparr>"

section \<open>Properties\<close>

lemma andThen_simps [simp]:
  "andThen (Inl e) f = Inl e"
  "andThen (Inr x) f = f x"
  by (simp_all add: andThen_def)

lemma andThen_eq_Inr: "andThen m f = Inr y \<longleftrightarrow> (\<exists>x. m = Inr x \<and> f x = Inr y)"
  by (cases m) simp_all

lemma andThen_eq_Inl: "andThen m f = Inl e \<longleftrightarrow> m = Inl e \<or> (\<exists>x. m = Inr x \<and> f x = Inl e)"
  by (cases m) simp_all

subsection \<open>When the conversions throw\<close>

lemma toStr_cases:
  "(convertible v \<longrightarrow> (\<exists>s. toStr P v = Inr s)) \<and> (\<not> convertible v \<longrightarrow> toStr P v = Inl TypeError)"
  "(list_all convertible xs \<longrightarrow> (\<exists>s. joinElems P xs = Inr s))
     \<and> (\<not> list_all convertible xs \<longrightarrow> joinElems P xs = Inl TypeError)"
  by (induction P v and P xs rule: toStr_joinElems.induct) (auto split: sum.splits)

lemma toStr_Inr_iff: "(\<exists>s. toStr P v = Inr s) \<longleftrightarrow> convertible v"
  using toStr_cases(1)[of v P] by auto

lemma toStr_Inl: "toStr P v = Inl e \<Longrightarrow> e = TypeError \<and> \<not> convertible v"
  using toStr_cases(1)[of v P] by auto

lemma toNum_Inr_iff: "(\<exists>n. toNum P v = Inr n) \<longleftrightarrow> convertible v"
  using toStr_Inr_iff[of P v] by (cases v) (auto simp: toNum_def andThen_eq_Inr)

lemma toNum_Inl: "toNum P v = Inl e \<Longrightarrow> e = TypeError \<and> \<not> convertible v"
  using toStr_Inl[of P v e] by (cases v) (auto simp: toNum_def andThen_eq_Inl)

lemma mapE_Inr_iff: "(\<exists>ys. mapE f xs = Inr ys) \<longleftrightarrow> list_all (\<lambda>x. \<exists>y. f x = Inr y) xs"
  by (induction xs) (auto simp: andThen_eq_Inr)

lemma mapE_Inr:
  "mapE f xs = Inr ys \<Longrightarrow> length ys = length xs \<and> (\<forall>i<length xs. f (xs ! i) = Inr (ys ! i))"
  by (induction xs arbitrary: ys) (auto simp: andThen_eq_Inr nth_Cons split: nat.splits)

lemma mapIdx_Inr_iff:
  "(\<exists>ys. mapIdx f i xs = Inr ys) \<longleftrightarrow> (\<forall>j<length xs. \<exists>y. f (i + j) (xs ! j) = Inr y)"
proof (induction xs arbitrary: i)
  case Nil
  show ?case by simp
next
  case (Cons x xs)
  have "(\<forall>j<length (x # xs). \<exists>y. f (i + j) ((x # xs) ! j) = Inr y)
      \<longleftrightarrow> (\<exists>y. f i x = Inr y) \<and> (\<forall>j<length xs. \<exists>y. f (Suc i + j) (xs ! j) = Inr y)"
    by (auto simp: nth_Cons less_Suc_eq_0_disj split: nat.splits)
  with Cons.IH[of "Suc i"] show ?case
    by (auto simp: andThen_eq_Inr)
qed

lemma mapIdx_Inr:
  "mapIdx f i xs = Inr ys \<Longrightarrow>
     length ys = length xs \<and> (\<forall>j<length xs. f (i + j) (xs ! j) = Inr (ys ! j))"
proof (induction xs arbitrary: i ys)
  case Nil
  then show ?case by simp
next
  case (Cons x xs)
  from Cons.prems obtain y ys' where
    y: "f i x = Inr y" and ys': "mapIdx f (Suc i) xs = Inr ys'" and e: "ys = y # ys'"
    by (auto simp: andThen_eq_Inr)
  from Cons.IH[OF ys'] y e show ?case
    by (auto simp: nth_Cons split: nat.splits)
qed

lemma getProp_nullish: "nullish v \<Longrightarrow> getProp v k = Inl TypeError"
  by (auto simp: nullish_def)

lemma getProp_field: "\<not> nullish v \<Longrightarrow> getProp v k = Inr (field v k)"
  by (cases v) (auto simp: nullish_def field_def)

lemma getProp_Inl: "getProp v k = Inl e \<Longrightarrow> e = TypeError \<and> nullish v"
  by (cases v) (auto simp: nullish_def)

lemma convertible_safe: "convertible d \<Longrightarrow> convertible (safe v d) = convertible v"
  by (auto simp: safe_def)

lemma elems_if: "(if isArray v then elems v else []) = elems v"
  by (cases v) (auto simp: isArray_def elems_def)

lemma stringList_Inr_iff: "(\<exists>ys. stringList P v = Inr ys) \<longleftrightarrow> textsOk v"
proof -
  have "(\<exists>ys. mapE (toStr P) (elems v) = Inr ys) \<longleftrightarrow> list_all convertible (elems v)"
    by (simp add: mapE_Inr_iff toStr_Inr_iff)
  then show ?thesis
    by (cases v) (auto simp: stringList_def textsOk_def isArray_def elems_def)
qed

lemma typeErrorOnly_andThen:
  "typeErrorOnly m \<Longrightarrow> (\<And>x. typeErrorOnly (f x)) \<Longrightarrow> typeErrorOnly (andThen m f)"
  by (cases m) (auto simp: typeErrorOnly_def)

lemma typeErrorOnly_Inr: "typeErrorOnly (Inr x)"
  by (simp add: typeErrorOnly_def)

lemma typeErrorOnly_getProp: "typeErrorOnly (getProp v k)"
  by (cases v) (auto simp: typeErrorOnly_def)

lemma typeErrorOnly_toStr: "typeErrorOnly (toStr P v)"
  using toStr_Inl[of P v] by (auto simp: typeErrorOnly_def split: sum.splits)

lemma typeErrorOnly_toNum: "typeErrorOnly (toNum P v)"
  using toNum_Inl[of P v] by (auto simp: typeErrorOnly_def split: sum.splits)

lemma typeErrorOnly_mapE: "(\<And>x. typeErrorOnly (f x)) \<Longrightarrow> typeErrorOnly (mapE f xs)"
  by (induction xs) (auto intro!: typeErrorOnly_andThen typeErrorOnly_Inr)

lemma typeErrorOnly_mapIdx: "(\<And>i x. typeErrorOnly (f i x)) \<Longrightarrow> typeErrorOnly (mapIdx f i xs)"
  by (induction xs arbitrary: i) (auto intro!: typeErrorOnly_andThen typeErrorOnly_Inr)

lemma typeErrorOnly_stringList: "typeErrorOnly (stringList P v)"
  by (simp add: stringList_def typeErrorOnly_mapE typeErrorOnly_toStr typeErrorOnly_Inr)

lemmas typeErrorOnly_intros =
  typeErrorOnly_andThen typeErrorOnly_Inr typeErrorOnly_getProp typeErrorOnly_toStr
  typeErrorOnly_toNum typeErrorOnly_stringList

lemma typeErrorOnly_normDay: "typeErrorOnly (normDay P i d)"
  unfolding normDay_def by (intro typeErrorOnly_intros)

lemma typeErrorOnly_normResource: "typeErrorOnly (normResource P r)"
  unfolding normResource_def by (intro typeErrorOnly_intros)

lemma typeErrorOnly_normalizeCourse: "typeErrorOnly (normalizeCourse P data topic)"
  unfolding normalizeCourse_def
  by (intro typeErrorOnly_intros typeErrorOnly_mapE typeErrorOnly_mapIdx
      typeErrorOnly_normDay typeErrorOnly_normResource)

lemma normalizeCourse_Inl: "normalizeCourse P data topic = Inl e \<Longrightarrow> e = TypeError"
  using typeErrorOnly_normalizeCourse[of P data topic] by (simp add: typeErrorOnly_def)

lemma andThen_ex_Inr: "(\<exists>y. andThen m f = Inr y) \<longleftrightarrow> (\<exists>x. m = Inr x \<and> (\<exists>y. f x = Inr y))"
  by (cases m) simp_all

lemma normDay_Inr_iff: "(\<exists>x. normDay P i d = Inr x) \<longleftrightarrow> dayOk d"
proof (cases "nullish d")
  case True
  then show ?thesis by (simp add: normDay_def dayOk_def getProp_nullish)
next
  case False
  note g = getProp_field[OF False]
  have "(\<exists>x. normDay P i d = Inr x) \<longleftrightarrow>
        convertible (safe (field d ''day'') (JNum (Finite (of_nat (i + 1)))))
      \<and> convertible (safe (field d ''title'')
                (JStr (''Day '' @ NumberToString P (Finite (of_nat (i + 1))))))
      \<and> textsOk (field d ''goals'')
      \<and> textsOk (field d ''concepts'')
      \<and> textsOk (field d ''exercises'')"
    unfolding normDay_def g andThen_simps
    by (simp only: andThen_ex_Inr sum.inject simp_thms ex_simps
        toNum_Inr_iff toStr_Inr_iff stringList_Inr_iff)
  then show ?thesis
    using False by (simp add: convertible_safe dayOk_def)
qed

lemma normResource_Inr_iff: "(\<exists>x. normResource P r = Inr x) \<longleftrightarrow> resourceOk r"
proof (cases "nullish r")
  case True
  then show ?thesis by (simp add: normResource_def resourceOk_def getProp_nullish)
next
  case False
  note g = getProp_field[OF False]
  have "(\<exists>x. normResource P r = Inr x) \<longleftrightarrow>
        convertible (safe (field r ''title'') (JStr ''Resource''))
      \<and> convertible (safe (field r ''url'') (JStr ''https://example.com''))
      \<and> convertible (safe (field r ''description'') (JStr []))"
    unfolding normResource_def g andThen_simps
    by (simp only: andThen_ex_Inr sum.inject simp_thms ex_simps toStr_Inr_iff)
  then show ?thesis
    using False by (simp add: convertible_safe resourceOk_def)
qed

lemma mapIdx_normDay_Inr_iff: "(\<exists>ds. mapIdx (normDay P) i xs = Inr ds) \<longleftrightarrow> list_all dayOk xs"
  by (simp add: mapIdx_Inr_iff list_all_length normDay_Inr_iff)

lemma mapE_normResource_Inr_iff:
  "(\<exists>rs. mapE (normResource P) xs = Inr rs) \<longleftrightarrow> list_all resourceOk xs"
  by (simp add: mapE_Inr_iff normResource_Inr_iff)

lemma normalizeCourse_Inr_iff: "(\<exists>c. normalizeCourse P data topic = Inr c) \<longleftrightarrow> tolerated data"
proof (cases "nullish data")
  case True
  then show ?thesis by (simp add: normalizeCourse_def tolerated_def getProp_nullish)
next
  case False
  note g = getProp_field[OF False]
  have "(\<exists>c. normalizeCourse P data topic = Inr c) \<longleftrightarrow>
        list_all dayOk (elems (field data ''days''))
      \<and> list_all resourceOk (elems (field data ''resources''))
      \<and> convertible (safe (field data ''title'') (JStr (''Master '' @ topic)))
      \<and> convertible (safe (field data ''duration'') (JStr ''5 Days''))
      \<and> convertible (safe (field data ''summary'') (JStr
        (''A comprehensive mini-course designed to take you from beginner to confident in ''
          @ topic @ ''.'')))
      \<and> convertible (safe (field data ''totalLessons'') (JNum (Finite 15)))
      \<and> convertible (safe (field data ''estimatedTime'') (JStr ''2-3 hours/day''))"
    unfolding normalizeCourse_def g andThen_simps elems_if
    by (simp only: andThen_ex_Inr sum.inject simp_thms ex_simps toNum_Inr_iff toStr_Inr_iff
        mapIdx_normDay_Inr_iff mapE_normResource_Inr_iff)
  then show ?thesis
    using False by (simp add: convertible_safe tolerated_def)
qed

subsection \<open>What the fields of the result are\<close>

lemma normDay_fields:
  assumes "normDay P i d = Inr x"
  shows "\<not> nullish d"
    and "toNum P (safe (field d ''day'') (JNum (Finite (of_nat (i + 1))))) = Inr (day x)"
    and "toStr P (safe (field d ''title'')
           (JStr (''Day '' @ NumberToString P (Finite (of_nat (i + 1)))))) = Inr (day_title x)"
    and "stringList P (field d ''goals'') = Inr (goals x)"
    and "stringList P (field d ''concepts'') = Inr (concepts x)"
    and "stringList P (field d ''exercises'') = Inr (exercises x)"
proof -
  from assms show n: "\<not> nullish d"
    by (auto simp: normDay_def getProp_nullish)
  note g = getProp_field[OF n]
  from assms[unfolded normDay_def g andThen_simps]
  show "toNum P (safe (field d ''day'') (JNum (Finite (of_nat (i + 1))))) = Inr (day x)"
    and "toStr P (safe (field d ''title'')
           (JStr (''Day '' @ NumberToString P (Finite (of_nat (i + 1)))))) = Inr (day_title x)"
    and "stringList P (field d ''goals'') = Inr (goals x)"
    and "stringList P (field d ''concepts'') = Inr (concepts x)"
    and "stringList P (field d ''exercises'') = Inr (exercises x)"
    by (auto simp only: andThen_eq_Inr sum.inject DaySpec.simps)
qed

lemma normResource_fields:
  assumes "normResource P r = Inr x"
  shows "\<not> nullish r"
    and "toStr P (safe (field r ''title'') (JStr ''Resource'')) = Inr (res_title x)"
    and "res_type x = (if field r ''type'' \<in> set [JStr ''video'', JStr ''article'', JStr ''pdf'']
                       then field r ''type'' else JStr ''article'')"
    and "toStr P (safe (field r ''url'') (JStr ''https://example.com'')) = Inr (url x)"
    and "toStr P (safe (field r ''description'') (JStr [])) = Inr (description x)"
proof -
  from assms show n: "\<not> nullish r"
    by (auto simp: normResource_def getProp_nullish)
  note g = getProp_field[OF n]
  from assms[unfolded normResource_def g andThen_simps]
  show "toStr P (safe (field r ''title'') (JStr ''Resource'')) = Inr (res_title x)"
    and "res_type x = (if field r ''type'' \<in> set [JStr ''video'', JStr ''article'', JStr ''pdf'']
                       then field r ''type'' else JStr ''article'')"
    and "toStr P (safe (field r ''url'') (JStr ''https://example.com'')) = Inr (url x)"
    and "toStr P (safe (field r ''description'') (JStr [])) = Inr (description x)"
    by (auto simp only: andThen_eq_Inr sum.inject ResourceSpec.simps)
qed

lemma normalizeCourse_fields:
  assumes "normalizeCourse P data topic = Inr c"
  shows "\<not> nullish data"
    and "\<exists>ds. mapIdx (normDay P) 0 (elems (field data ''days'')) = Inr ds
           \<and> days c = (if ds \<noteq> [] then ds else dummyDays)"
    and "\<exists>rs. mapE (normResource P) (elems (field data ''resources'')) = Inr rs
           \<and> resources c = (if rs \<noteq> [] then rs else dummyResources)"
    and "toStr P (safe (field data ''title'') (JStr (''Master '' @ topic))) = Inr (title c)"
    and "toStr P (safe (field data ''duration'') (JStr ''5 Days'')) = Inr (duration c)"
    and "toStr P (safe (field data ''summary'') (JStr
        (''A comprehensive mini-course designed to take you from beginner to confident in ''
          @ topic @ ''.''))) = Inr (summary c)"
    and "toNum P (safe (field data ''totalLessons'') (JNum (Finite 15))) = Inr (totalLessons c)"
    and "toStr P (safe (field data ''estimatedTime'') (JStr ''2-3 hours/day'')) = Inr (estimatedTime c)"
proof -
  from assms show n: "\<not> nullish data"
    by (auto simp: normalizeCourse_def getProp_nullish)
  note g = getProp_field[OF n]
  from assms[unfolded normalizeCourse_def g andThen_simps elems_if length_0_conv]
  show "\<exists>ds. mapIdx (normDay P) 0 (elems (field data ''days'')) = Inr ds
           \<and> days c = (if ds \<noteq> [] then ds else dummyDays)"
    and "\<exists>rs. mapE (normResource P) (elems (field data ''resources'')) = Inr rs
           \<and> resources c = (if rs \<noteq> [] then rs else dummyResources)"
    and "toStr P (safe (field data ''title'') (JStr (''Master '' @ topic))) = Inr (title c)"
    and "toStr P (safe (field data ''duration'') (JStr ''5 Days'')) = Inr (duration c)"
    and "toStr P (safe (field data ''summary'') (JStr
        (''A comprehensive mini-course designed to take you from beginner to confident in ''
          @ topic @ ''.''))) = Inr (summary c)"
    and "toNum P (safe (field data ''totalLessons'') (JNum (Finite 15))) = Inr (totalLessons c)"
    and "toStr P (safe (field data ''estimatedTime'') (JStr ''2-3 hours/day'')) = Inr (estimatedTime c)"
    by (auto simp only: andThen_eq_Inr sum.inject Course.simps)
qed

lemma mapE_nth:
  "mapE f xs = Inr ys \<Longrightarrow> i < length xs \<Longrightarrow> f (xs ! i) = Inr (ys ! i)"
  using mapE_Inr by blast

lemma mapIdx_nth:
  "mapIdx f 0 xs = Inr ys \<Longrightarrow> i < length xs \<Longrightarrow> f i (xs ! i) = Inr (ys ! i)"
  using mapIdx_Inr[of f 0 xs ys] by simp

lemma getProp_Inr_field: "getProp v k = Inr x \<Longrightarrow> field v k = x"
  by (simp add: field_def)

lemma res_type_normResource:
  "normResource P r = Inr x \<Longrightarrow> res_type x \<in> {JStr ''video'', JStr ''article'', JStr ''pdf''}"
  by (drule normResource_fields(3)) (auto split: if_splits)

lemma res_type_dummy: "r \<in> set dummyResources \<Longrightarrow> res_type r \<in> {JStr ''video'', JStr ''article'', JStr ''pdf''}"
  by (auto simp: dummyResources_def)

lemma resources_of_array:
  assumes c: "normalizeCourse P data topic = Inr c"
    and rs: "getProp data ''resources'' = Inr (JArr rs)" and ne: "rs \<noteq> []"
  shows "mapE (normResource P) rs = Inr (resources c)"
proof -
  from rs have "elems (field data ''resources'') = rs"
    by (simp add: field_def elems_def)
  with normalizeCourse_fields(3)[OF c] obtain xs where
    xs: "mapE (normResource P) rs = Inr xs" "resources c = (if xs \<noteq> [] then xs else dummyResources)"
    by auto
  from mapE_Inr[OF xs(1)] ne have "xs \<noteq> []" by auto
  with xs show ?thesis by simp
qed

lemma days_of_array:
  assumes c: "normalizeCourse P data topic = Inr c"
    and ds: "getProp data ''days'' = Inr (JArr ds)" and ne: "ds \<noteq> []"
  shows "mapIdx (normDay P) 0 ds = Inr (days c)"
proof -
  from ds have "elems (field data ''days'') = ds"
    by (simp add: field_def elems_def)
  with normalizeCourse_fields(2)[OF c] obtain xs where
    xs: "mapIdx (normDay P) 0 ds = Inr xs" "days c = (if xs \<noteq> [] then xs else dummyDays)"
    by auto
  from mapIdx_Inr[OF xs(1)] ne have "xs \<noteq> []" by auto
  with xs show ?thesis by simp
qed

lemma dummy_lengths: "length dummyDays = 5" "length dummyResources = 3"
  by (simp_all add: dummyDays_def dummyResources_def)

lemma normalizeCourse_no_fields:
  "\<not> nullish data \<Longrightarrow> \<forall>k. field data k = JUndefined \<Longrightarrow>
     normalizeCourse P data topic = Inr (defaultCourse topic)"
  by (simp add: normalizeCourse_def getProp_field safe_def isArray_def toNum_def defaultCourse_def)

lemma field_primitive [simp]:
  "field (JStr s) k = JUndefined" "field (JNum n) k = JUndefined"
  "field (JBool b) k = JUndefined" "field (JArr xs) k = JUndefined"
  "field (JObj []) k = JUndefined"
  by (simp_all add: field_def)

section \<open>The normalizer\<close>

lemma tolerated_primitive:
  "tolerated (JStr s)" "tolerated (JNum n)" "tolerated (JBool b)" "tolerated (JArr xs)"
  "tolerated (JObj [])"
  by (simp_all add: tolerated_def nullish_def elems_def)

lemma dayOk_primitive:
  "dayOk (JStr s)" "dayOk (JNum n)" "dayOk (JBool b)" "dayOk (JObj [])"
  by (simp_all add: dayOk_def textsOk_def nullish_def elems_def)

text \<open>
  Claim C1, as amended. \<^verbatim>\<open>normalizeCourse\<close> returns a course exactly on the tolerated
  candidates: those that are not \<^verbatim>\<open>undefined\<close> or \<^verbatim>\<open>null\<close>, whose arrays
  \<^verbatim>\<open>days\<close> and \<^verbatim>\<open>resources\<close> hold no \<^verbatim>\<open>undefined\<close> or \<^verbatim>\<open>null\<close> element, and
  in which no value given to \<^verbatim>\<open>String\<close> or \<^verbatim>\<open>Number\<close> is, or joins, an object with an
  own property \<^verbatim>\<open>toString\<close>. On every other candidate it throws a TypeError, and it
  throws nothing else. Every string, number, boolean and array is tolerated, and a string,
  an array and \<^verbatim>\<open>{}\<close> give the course of defaults, whose days and resources are the
  non-empty fallback days and resources; \<^verbatim>\<open>undefined\<close> and \<^verbatim>\<open>null\<close> make it throw.
\<close>

theorem normalize_returns_iff:
  "((\<exists>c. normalizeCourse P data topic = Inr c) \<longleftrightarrow> tolerated data)
   \<and> (normalizeCourse P data topic = Inl e \<longrightarrow> e = TypeError)
   \<and> tolerated (JStr s) \<and> tolerated (JNum n) \<and> tolerated (JBool b) \<and> tolerated (JArr xs)
   \<and> normalizeCourse P (JStr s) topic = Inr (defaultCourse topic)
   \<and> normalizeCourse P (JArr xs) topic = Inr (defaultCourse topic)
   \<and> normalizeCourse P (JObj []) ''X'' = Inr (defaultCourse ''X'')
   \<and> days (defaultCourse ''X'') = dummyDays \<and> resources (defaultCourse ''X'') = dummyResources
   \<and> dummyDays \<noteq> [] \<and> dummyResources \<noteq> []
   \<and> normalizeCourse P JUndefined ''X'' = Inl TypeError
   \<and> normalizeCourse P JNull ''X'' = Inl TypeError"
proof -
  have "normalizeCourse P (JStr s) topic = Inr (defaultCourse topic)"
    "normalizeCourse P (JArr xs) topic = Inr (defaultCourse topic)"
    "normalizeCourse P (JObj []) ''X'' = Inr (defaultCourse ''X'')"
    by (simp_all add: normalizeCourse_no_fields nullish_def)
  moreover have "normalizeCourse P JUndefined ''X'' = Inl TypeError"
    "normalizeCourse P JNull ''X'' = Inl TypeError"
    by (simp_all add: normalizeCourse_def)
  moreover have "days (defaultCourse ''X'') = dummyDays" "resources (defaultCourse ''X'') = dummyResources"
    by (simp_all add: defaultCourse_def)
  moreover have "dummyDays \<noteq> []" "dummyResources \<noteq> []"
    using dummy_lengths by auto
  ultimately show ?thesis
    using normalizeCourse_Inr_iff[of P data topic] normalizeCourse_Inl[of P data topic e]
      tolerated_primitive(1-4)
    by blast
qed

theorem normalize_returns_iff_witness:
  "tolerated (JObj [(''days'', JArr [JNum (Finite 1), JStr ''a''])])
   \<and> normalizeCourse numeric0 (JObj [(''days'', JArr [JNum (Finite 1), JStr ''a''])]) ''X''
       = Inr ((defaultCourse ''X'')
           \<lparr>days := [\<lparr>day = Finite 1, day_title = ''Day 1'', goals = [], concepts = [], exercises = []\<rparr>,
                      \<lparr>day = Finite 2, day_title = ''Day 2'', goals = [], concepts = [], exercises = []\<rparr>]\<rparr>)
   \<and> \<not> tolerated (JObj [(''days'', JArr [JNull])])
   \<and> normalizeCourse numeric0 (JObj [(''days'', JArr [JNull])]) ''X'' = Inl TypeError"
proof -
  have t: "tolerated (JObj [(''days'', JArr [JNum (Finite 1), JStr ''a''])])"
    "\<not> tolerated (JObj [(''days'', JArr [JNull])])"
    by (simp_all add: tolerated_def nullish_def field_def elems_def dayOk_def textsOk_def)
  have run: "normalizeCourse numeric0 (JObj [(''days'', JArr [JNum (Finite 1), JStr ''a''])]) ''X''
       = Inr ((defaultCourse ''X'')
           \<lparr>days := [\<lparr>day = Finite 1, day_title = ''Day 1'', goals = [], concepts = [], exercises = []\<rparr>,
                      \<lparr>day = Finite 2, day_title = ''Day 2'', goals = [], concepts = [], exercises = []\<rparr>]\<rparr>)"
    by (simp add: normalizeCourse_def normDay_def stringList_def safe_def isArray_def elems_def
        defaultCourse_def toNum_def NumberToString_def showNat.simps)
  have "normalizeCourse numeric0 (JObj [(''days'', JArr [JNull])]) ''X'' = Inl TypeError"
  proof (cases "normalizeCourse numeric0 (JObj [(''days'', JArr [JNull])]) ''X''")
    case (Inl e)
    with normalize_returns_iff[of numeric0 "JObj [(''days'', JArr [JNull])]" "''X''" e]
    show ?thesis by simp
  next
    case (Inr c)
    with normalize_returns_iff[of numeric0 "JObj [(''days'', JArr [JNull])]" "''X''"] t(2)
    show ?thesis by blast
  qed
  with t run show ?thesis by simp
qed

text \<open>
  The claim as stated has \<^verbatim>\<open>normalize(undefined, "X")\<close> return a course. The code reads
  \<^verbatim>\<open>data.days\<close> first, which throws.
\<close>

theorem normalize_undefined_counterexample:
  "normalizeCourse numeric0 JUndefined ''X'' = Inl TypeError"
  by (simp add: normalizeCourse_def)

text \<open>
  Claim C5. In the result of \<^verbatim>\<open>normalizeCourse\<close> the type of every resource is one of
  \<^verbatim>\<open>"video"\<close>, \<^verbatim>\<open>"article"\<close> and \<^verbatim>\<open>"pdf"\<close>; the resource built from the element
  at position \<open>i\<close> of the candidate's \<^verbatim>\<open>resources\<close> keeps that element's type when it is
  one of the three and has \<^verbatim>\<open>"article"\<close> for every other value, a missing one included;
  and \<^verbatim>\<open>normalize({resources: [{type: "bogus"}]}, "X")\<close> has \<^verbatim>\<open>"article"\<close> there.
\<close>

theorem resource_type_enumerated:
  "(normalizeCourse P data topic = Inr c \<longrightarrow>
      (\<forall>r \<in> set (resources c). res_type r \<in> {JStr ''video'', JStr ''article'', JStr ''pdf''}))
   \<and> (normalizeCourse P data topic = Inr c \<and> getProp data ''resources'' = Inr (JArr rs)
        \<and> i < length rs \<and> getProp (rs ! i) ''type'' = Inr ty \<longrightarrow>
        length (resources c) = length rs
        \<and> res_type (resources c ! i)
            = (if ty \<in> {JStr ''video'', JStr ''article'', JStr ''pdf''} then ty else JStr ''article''))
   \<and> (\<exists>c. normalizeCourse P (JObj [(''resources'', JArr [JObj [(''type'', JStr ''bogus'')]])]) ''X'' = Inr c
        \<and> res_type (resources c ! 0) = JStr ''article'')"
proof -
  have p1: "res_type r \<in> {JStr ''video'', JStr ''article'', JStr ''pdf''}"
    if c: "normalizeCourse P data topic = Inr c" and r: "r \<in> set (resources c)" for r
  proof -
    from normalizeCourse_fields(3)[OF c] obtain xs where
      xs: "mapE (normResource P) (elems (field data ''resources'')) = Inr xs"
      and rc: "resources c = (if xs \<noteq> [] then xs else dummyResources)"
      by blast
    show ?thesis
    proof (cases "xs = []")
      case True
      with rc r have "r \<in> set dummyResources" by simp
      then show ?thesis by (rule res_type_dummy)
    next
      case False
      with rc r obtain j where j: "j < length xs" "r = xs ! j"
        by (auto simp: in_set_conv_nth)
      with mapE_Inr[OF xs] have "normResource P (elems (field data ''resources'') ! j) = Inr r"
        by simp
      then show ?thesis by (rule res_type_normResource)
    qed
  qed
  have p2: "length (resources c) = length rs
        \<and> res_type (resources c ! i)
            = (if ty \<in> {JStr ''video'', JStr ''article'', JStr ''pdf''} then ty else JStr ''article'')"
    if c: "normalizeCourse P data topic = Inr c" and rs: "getProp data ''resources'' = Inr (JArr rs)"
      and i: "i < length rs" and ty: "getProp (rs ! i) ''type'' = Inr ty"
  proof -
    from i have "rs \<noteq> []" by auto
    from resources_of_array[OF c rs this] have m: "mapE (normResource P) rs = Inr (resources c)" .
    from mapE_Inr[OF m] i have len: "length (resources c) = length rs"
      and x: "normResource P (rs ! i) = Inr (resources c ! i)"
      by auto
    from ty have "field (rs ! i) ''type'' = ty" by (simp add: getProp_Inr_field)
    with normResource_fields(3)[OF x] len show ?thesis by simp
  qed
  have p3: "\<exists>c. normalizeCourse P (JObj [(''resources'', JArr [JObj [(''type'', JStr ''bogus'')]])]) ''X'' = Inr c
        \<and> res_type (resources c ! 0) = JStr ''article''"
    by (simp add: normalizeCourse_def normResource_def safe_def isArray_def elems_def toNum_def)
  from p1 p2 p3 show ?thesis by blast
qed

theorem resource_type_enumerated_witness:
  "normalizeCourse numeric0
      (JObj [(''resources'', JArr [JObj [(''type'', JStr ''pdf'')], JObj [(''type'', JStr ''bogus'')]])]) ''X''
     = Inr ((defaultCourse ''X'')
         \<lparr>resources :=
            [\<lparr>res_title = ''Resource'', res_type = JStr ''pdf'', url = ''https://example.com'',
              description = []\<rparr>,
             \<lparr>res_title = ''Resource'', res_type = JStr ''article'', url = ''https://example.com'',
              description = []\<rparr>]\<rparr>)
   \<and> getProp (JObj [(''resources'', JArr [JObj [(''type'', JStr ''pdf'')], JObj [(''type'', JStr ''bogus'')]])])
        ''resources'' = Inr (JArr [JObj [(''type'', JStr ''pdf'')], JObj [(''type'', JStr ''bogus'')]])
   \<and> (1::nat) < length [JObj [(''type'', JStr ''pdf'')], JObj [(''type'', JStr ''bogus'')]]
   \<and> getProp ([JObj [(''type'', JStr ''pdf'')], JObj [(''type'', JStr ''bogus'')]] ! 1) ''type''
        = Inr (JStr ''bogus'')
   \<and> res_type ([\<lparr>res_title = ''Resource'', res_type = JStr ''pdf'', url = ''https://example.com'',
              description = []\<rparr>,
             \<lparr>res_title = ''Resource'', res_type = JStr ''article'', url = ''https://example.com'',
              description = []\<rparr>] ! 1) = JStr ''article''"
proof -
  let ?rs = "[JObj [(''type'', JStr ''pdf'')], JObj [(''type'', JStr ''bogus'')]]"
  let ?out = "[\<lparr>res_title = ''Resource'', res_type = JStr ''pdf'', url = ''https://example.com'',
              description = []\<rparr>,
             \<lparr>res_title = ''Resource'', res_type = JStr ''article'', url = ''https://example.com'',
              description = []\<rparr>]"
  have run: "normalizeCourse numeric0 (JObj [(''resources'', JArr ?rs)]) ''X''
      = Inr ((defaultCourse ''X'')\<lparr>resources := ?out\<rparr>)"
    by (simp add: normalizeCourse_def normResource_def safe_def isArray_def elems_def toNum_def
        defaultCourse_def)
  from resource_type_enumerated
    [of numeric0 "JObj [(''resources'', JArr ?rs)]" "''X''" "(defaultCourse ''X'')\<lparr>resources := ?out\<rparr>"
      ?rs 1 "JStr ''bogus''"] run
  show ?thesis by simp
qed

lemma days_fallback:
  assumes c: "normalizeCourse P data topic = Inr c"
    and dv: "getProp data ''days'' = Inr dv" and e: "\<not> isArray dv \<or> dv = JArr []"
  shows "days c = dummyDays"
proof -
  from dv e have "elems (field data ''days'') = []"
    by (cases dv) (auto simp: field_def elems_def isArray_def)
  with normalizeCourse_fields(2)[OF c] show ?thesis by auto
qed

lemma resources_fallback:
  assumes c: "normalizeCourse P data topic = Inr c"
    and rv: "getProp data ''resources'' = Inr rv" and e: "\<not> isArray rv \<or> rv = JArr []"
  shows "resources c = dummyResources"
proof -
  from rv e have "elems (field data ''resources'') = []"
    by (cases rv) (auto simp: field_def elems_def isArray_def)
  with normalizeCourse_fields(3)[OF c] show ?thesis by auto
qed

lemma days_resources_nonempty:
  assumes c: "normalizeCourse P data topic = Inr c"
  shows "days c \<noteq> []" "resources c \<noteq> []"
  using normalizeCourse_fields(2,3)[OF c] dummy_lengths
  by (auto split: if_splits)

text \<open>
  Claim C7. When the candidate's \<^verbatim>\<open>days\<close> is not an array, or is an empty array (so that
  the mapped sequence is empty), the result has the five days of the fallback template, and
  likewise the three fallback resources for \<^verbatim>\<open>resources\<close>; the days and resources of a
  result are never empty; and \<^verbatim>\<open>normalize({days: "not-an-array"}, "X")\<close> returns a course
  whose days are the fallback days.
\<close>

theorem fallback_templates:
  "(normalizeCourse P data topic = Inr c \<longrightarrow> days c \<noteq> [] \<and> resources c \<noteq> [])
   \<and> (normalizeCourse P data topic = Inr c \<and> getProp data ''days'' = Inr dv
        \<and> (\<not> isArray dv \<or> dv = JArr []) \<longrightarrow> days c = dummyDays)
   \<and> (normalizeCourse P data topic = Inr c \<and> getProp data ''resources'' = Inr rv
        \<and> (\<not> isArray rv \<or> rv = JArr []) \<longrightarrow> resources c = dummyResources)
   \<and> length dummyDays = 5 \<and> length dummyResources = 3
   \<and> normalizeCourse P (JObj [(''days'', JStr ''not-an-array'')]) ''X'' = Inr (defaultCourse ''X'')
   \<and> days (defaultCourse ''X'') = dummyDays"
proof -
  have "normalizeCourse P (JObj [(''days'', JStr ''not-an-array'')]) ''X'' = Inr (defaultCourse ''X'')"
    by (simp add: normalizeCourse_def safe_def isArray_def toNum_def defaultCourse_def)
  moreover have "days (defaultCourse ''X'') = dummyDays"
    by (simp add: defaultCourse_def)
  ultimately show ?thesis
    using days_fallback[of P data topic c dv] resources_fallback[of P data topic c rv]
      days_resources_nonempty[of P data topic c] dummy_lengths
    by blast
qed

theorem fallback_templates_witness:
  "normalizeCourse numeric0 (JObj [(''days'', JStr ''not-an-array''), (''resources'', JArr [])]) ''X''
      = Inr (defaultCourse ''X'')
   \<and> getProp (JObj [(''days'', JStr ''not-an-array''), (''resources'', JArr [])]) ''days''
      = Inr (JStr ''not-an-array'')
   \<and> \<not> isArray (JStr ''not-an-array'')
   \<and> getProp (JObj [(''days'', JStr ''not-an-array''), (''resources'', JArr [])]) ''resources''
      = Inr (JArr [])
   \<and> days (defaultCourse ''X'') = dummyDays \<and> resources (defaultCourse ''X'') = dummyResources
   \<and> days (defaultCourse ''X'') \<noteq> [] \<and> resources (defaultCourse ''X'') \<noteq> []"
proof -
  have run: "normalizeCourse numeric0 (JObj [(''days'', JStr ''not-an-array''), (''resources'', JArr [])]) ''X''
      = Inr (defaultCourse ''X'')"
    by (simp add: normalizeCourse_def safe_def isArray_def elems_def toNum_def defaultCourse_def)
  from fallback_templates
    [of numeric0 "JObj [(''days'', JStr ''not-an-array''), (''resources'', JArr [])]" "''X''"
      "defaultCourse ''X''" "JStr ''not-an-array''" "JArr []"] run
  show ?thesis by (auto simp: isArray_def)
qed

lemma safe_nullish: "nullish v \<Longrightarrow> safe v d = d"
  by (auto simp: safe_def nullish_def)

lemma safe_not_nullish: "\<not> nullish v \<Longrightarrow> safe v d = v"
  by (auto simp: safe_def nullish_def)

lemma toNum_JNum [simp]: "toNum P (JNum n) = Inr n"
  by (simp add: toNum_def)

lemma toStr_JStr: "toStr P (JStr s) = Inr s"
  by simp

lemma day_of_element:
  assumes c: "normalizeCourse P data topic = Inr c"
    and ds: "getProp data ''days'' = Inr (JArr ds)" and i: "i < length ds"
    and dv: "getProp (ds ! i) ''day'' = Inr dv"
  shows "length (days c) = length ds"
    and "toNum P (safe dv (JNum (Finite (of_nat (i + 1))))) = Inr (day (days c ! i))"
proof -
  from i have "ds \<noteq> []" by auto
  from days_of_array[OF c ds this] have m: "mapIdx (normDay P) 0 ds = Inr (days c)" .
  from mapIdx_Inr[OF m] i have x: "normDay P i (ds ! i) = Inr (days c ! i)"
    by auto
  from mapIdx_Inr[OF m] show "length (days c) = length ds"
    by simp
  from dv have "field (ds ! i) ''day'' = dv" by (simp add: getProp_Inr_field)
  with normDay_fields(2)[OF x]
  show "toNum P (safe dv (JNum (Finite (of_nat (i + 1))))) = Inr (day (days c ! i))"
    by simp
qed

text \<open>
  Claim C6, as amended. A day whose \<^verbatim>\<open>day\<close> is missing (\<^verbatim>\<open>undefined\<close> or
  \<^verbatim>\<open>null\<close>) gets its 1-based position in the sequence; every other value is converted
  with \<^verbatim>\<open>Number\<close>, and the day number is the result of that conversion. In
  \<^verbatim>\<open>normalize({days: [{title: "X"}, {title: "Y"}]}, "T")\<close> the day numbers are 1 and 2.
\<close>

theorem day_number_default:
  "(normalizeCourse P data topic = Inr c \<and> getProp data ''days'' = Inr (JArr ds)
      \<and> i < length ds \<and> getProp (ds ! i) ''day'' = Inr dv \<longrightarrow>
      length (days c) = length ds
      \<and> (dv = JUndefined \<or> dv = JNull \<longrightarrow> day (days c ! i) = Finite (of_nat (i + 1)))
      \<and> (dv \<noteq> JUndefined \<and> dv \<noteq> JNull \<longrightarrow> toNum P dv = Inr (day (days c ! i))))
   \<and> (\<exists>c. normalizeCourse P
             (JObj [(''days'', JArr [JObj [(''title'', JStr ''X'')], JObj [(''title'', JStr ''Y'')]])]) ''T''
           = Inr c
         \<and> day (days c ! 0) = Finite 1 \<and> day (days c ! 1) = Finite 2)"
proof -
  have p1: "length (days c) = length ds
      \<and> (dv = JUndefined \<or> dv = JNull \<longrightarrow> day (days c ! i) = Finite (of_nat (i + 1)))
      \<and> (dv \<noteq> JUndefined \<and> dv \<noteq> JNull \<longrightarrow> toNum P dv = Inr (day (days c ! i)))"
    if c: "normalizeCourse P data topic = Inr c" and ds: "getProp data ''days'' = Inr (JArr ds)"
      and i: "i < length ds" and dv: "getProp (ds ! i) ''day'' = Inr dv"
    using day_of_element[OF c ds i dv]
    by (auto simp: safe_def simp del: of_nat_add of_nat_Suc)
  have p2: "\<exists>c. normalizeCourse P
             (JObj [(''days'', JArr [JObj [(''title'', JStr ''X'')], JObj [(''title'', JStr ''Y'')]])]) ''T''
           = Inr c
         \<and> day (days c ! 0) = Finite 1 \<and> day (days c ! 1) = Finite 2"
    by (simp add: normalizeCourse_def normDay_def stringList_def safe_def isArray_def elems_def)
  from p1 p2 show ?thesis by blast
qed

theorem day_number_default_witness:
  "normalizeCourse numeric0
     (JObj [(''days'', JArr [JObj [(''title'', JStr ''X'')], JObj [(''day'', JStr ''7'')]])]) ''T''
     = Inr ((defaultCourse ''T'')
         \<lparr>days := [\<lparr>day = Finite 1, day_title = ''X'', goals = [], concepts = [], exercises = []\<rparr>,
                    \<lparr>day = Finite 7, day_title = ''Day 2'', goals = [], concepts = [], exercises = []\<rparr>]\<rparr>)
   \<and> getProp (JObj [(''days'', JArr [JObj [(''title'', JStr ''X'')], JObj [(''day'', JStr ''7'')]])]) ''days''
       = Inr (JArr [JObj [(''title'', JStr ''X'')], JObj [(''day'', JStr ''7'')]])
   \<and> (0::nat) < length [JObj [(''title'', JStr ''X'')], JObj [(''day'', JStr ''7'')]]
   \<and> getProp ([JObj [(''title'', JStr ''X'')], JObj [(''day'', JStr ''7'')]] ! 0) ''day'' = Inr JUndefined
   \<and> day ([\<lparr>day = Finite 1, day_title = ''X'', goals = [], concepts = [], exercises = []\<rparr>,
            \<lparr>day = Finite 7, day_title = ''Day 2'', goals = [], concepts = [], exercises = []\<rparr>] ! 0)
       = Finite (of_nat (0 + 1))
   \<and> getProp ([JObj [(''title'', JStr ''X'')], JObj [(''day'', JStr ''7'')]] ! 1) ''day'' = Inr (JStr ''7'')
   \<and> toNum numeric0 (JStr ''7'') = Inr (Finite 7)"
proof -
  let ?ds = "[JObj [(''title'', JStr ''X'')], JObj [(''day'', JStr ''7'')]]"
  let ?out = "[\<lparr>day = Finite 1, day_title = ''X'', goals = [], concepts = [], exercises = []\<rparr>,
               \<lparr>day = Finite 7, day_title = ''Day 2'', goals = [], concepts = [], exercises = []\<rparr>]"
  have n7: "toNum numeric0 (JStr ''7'') = Inr (Finite 7)"
    by (simp add: toNum_def StringToNumber_def trim_def isSpace_def isStrNumericLiteral_def
        nonDecimalInteger_def unsignedDecimal_def isDigit_def decValue_def digitVal_def)
  have run: "normalizeCourse numeric0 (JObj [(''days'', JArr ?ds)]) ''T''
      = Inr ((defaultCourse ''T'')\<lparr>days := ?out\<rparr>)"
    by (simp add: normalizeCourse_def normDay_def stringList_def safe_def isArray_def elems_def
        defaultCourse_def n7 NumberToString_def showNat.simps)
  from day_number_default
    [of numeric0 "JObj [(''days'', JArr ?ds)]" "''T''" "(defaultCourse ''T'')\<lparr>days := ?out\<rparr>" ?ds 0 JUndefined]
    day_number_default
    [of numeric0 "JObj [(''days'', JArr ?ds)]" "''T''" "(defaultCourse ''T'')\<lparr>days := ?out\<rparr>" ?ds 1 "JStr ''7''"]
    run n7
  show ?thesis by simp
qed

text \<open>
  The claim as stated also gives the position to a day whose \<^verbatim>\<open>day\<close> is invalid. The
  code does not: for \<^verbatim>\<open>{days: [{day: "abc"}]}\<close> the first day's number is NaN, not 1.
\<close>

theorem day_number_invalid_counterexample:
  "normalizeCourse numeric0 (JObj [(''days'', JArr [JObj [(''day'', JStr ''abc'')]])]) ''T''
     = Inr ((defaultCourse ''T'')
         \<lparr>days := [\<lparr>day = NaN, day_title = ''Day 1'', goals = [], concepts = [], exercises = []\<rparr>]\<rparr>)
   \<and> NaN \<noteq> Finite 1"
proof -
  have n: "toNum numeric0 (JStr ''abc'') = Inr NaN"
    by (simp add: toNum_def StringToNumber_def trim_def isSpace_def isStrNumericLiteral_def
        nonDecimalInteger_def unsignedDecimal_def isDigit_def)
  show ?thesis
    by (simp add: normalizeCourse_def normDay_def stringList_def safe_def isArray_def elems_def
        defaultCourse_def n NumberToString_def showNat.simps)
qed

lemma toNum_Inl_iff: "toNum P v = Inl TypeError \<longleftrightarrow> \<not> convertible v"
  using toNum_Inr_iff[of P v] toNum_Inl[of P v]
  by (cases "toNum P v") auto

lemma StringToNumber_NaN:
  "trim s \<noteq> [] \<Longrightarrow> \<not> isStrNumericLiteral (trim s) \<Longrightarrow> StringToNumber P s = NaN"
  by (simp add: StringToNumber_def)

lemma StringToNumber_object [simp]: "StringToNumber P ''[object Object]'' = NaN"
  by (simp add: StringToNumber_def trim_def isSpace_def isStrNumericLiteral_def
      nonDecimalInteger_def unsignedDecimal_def isDigit_def)

lemma toNum_plain_object: "''toString'' \<notin> set (map fst kvs) \<Longrightarrow> toNum P (JObj kvs) = Inr NaN"
  by (simp add: toNum_def)

text \<open>
  Claim C8, as amended. \<^verbatim>\<open>Number(v)\<close> throws a TypeError exactly when \<open>v\<close> is an object
  with an own property \<^verbatim>\<open>toString\<close>, or an array that joins such an object; on every
  other value it returns a number: the value itself for a number, 0 or 1 for a boolean, the
  number read from the text for a string, which is NaN when the trimmed text is not empty
  and not a numeric literal, and NaN for an object. Where \<^verbatim>\<open>normalizeCourse\<close> returns,
  \<^verbatim>\<open>totalLessons\<close> and every day number are the result of this conversion, applied to
  the candidate's value, or to the default (15, the 1-based position) when that value is
  \<^verbatim>\<open>undefined\<close> or \<^verbatim>\<open>null\<close>.
\<close>

theorem numeric_coercion:
  "(toNum P v = Inl TypeError \<longleftrightarrow> \<not> convertible v)
   \<and> ((\<exists>n. toNum P v = Inr n) \<longleftrightarrow> convertible v)
   \<and> toNum P (JNum n) = Inr n
   \<and> toNum P (JBool b) = Inr (Finite (if b then 1 else 0))
   \<and> toNum P (JStr s) = Inr (StringToNumber P s)
   \<and> (trim s \<noteq> [] \<and> \<not> isStrNumericLiteral (trim s) \<longrightarrow> StringToNumber P s = NaN)
   \<and> (''toString'' \<notin> set (map fst kvs) \<longrightarrow> toNum P (JObj kvs) = Inr NaN)
   \<and> (normalizeCourse P data topic = Inr c \<and> getProp data ''totalLessons'' = Inr lv \<longrightarrow>
        toNum P (safe lv (JNum (Finite 15))) = Inr (totalLessons c))
   \<and> (normalizeCourse P data topic = Inr c \<and> getProp data ''days'' = Inr (JArr ds)
        \<and> i < length ds \<and> getProp (ds ! i) ''day'' = Inr dv \<longrightarrow>
        toNum P (safe dv (JNum (Finite (of_nat (i + 1))))) = Inr (day (days c ! i)))"
proof -
  have p1: "toNum P (safe lv (JNum (Finite 15))) = Inr (totalLessons c)"
    if c: "normalizeCourse P data topic = Inr c" and lv: "getProp data ''totalLessons'' = Inr lv"
    using normalizeCourse_fields(7)[OF c] lv by (simp add: getProp_Inr_field)
  have p2: "toNum P (safe dv (JNum (Finite (of_nat (i + 1))))) = Inr (day (days c ! i))"
    if "normalizeCourse P data topic = Inr c" "getProp data ''days'' = Inr (JArr ds)"
      "i < length ds" "getProp (ds ! i) ''day'' = Inr dv"
    using day_of_element(2)[OF that] .
  have p3: "toNum P (JBool b) = Inr (Finite (if b then 1 else 0))"
    "toNum P (JStr s) = Inr (StringToNumber P s)"
    by (simp_all add: toNum_def)
  show ?thesis
    using p1 p2 p3 toNum_Inl_iff[of P v] toNum_Inr_iff[of P v] toNum_JNum[of P n]
      StringToNumber_NaN[of s P] toNum_plain_object[of kvs P]
    by blast
qed

theorem numeric_coercion_witness:
  "normalizeCourse numeric0
     (JObj [(''totalLessons'', JObj []), (''days'', JArr [JObj [(''day'', JBool True)]])]) ''X''
     = Inr ((defaultCourse ''X'')
         \<lparr>totalLessons := NaN,
          days := [\<lparr>day = Finite 1, day_title = ''Day 1'', goals = [], concepts = [], exercises = []\<rparr>]\<rparr>)
   \<and> getProp (JObj [(''totalLessons'', JObj []), (''days'', JArr [JObj [(''day'', JBool True)]])])
        ''totalLessons'' = Inr (JObj [])
   \<and> toNum numeric0 (safe (JObj []) (JNum (Finite 15))) = Inr NaN
   \<and> getProp (JObj [(''totalLessons'', JObj []), (''days'', JArr [JObj [(''day'', JBool True)]])])
        ''days'' = Inr (JArr [JObj [(''day'', JBool True)]])
   \<and> (0::nat) < length [JObj [(''day'', JBool True)]]
   \<and> getProp ([JObj [(''day'', JBool True)]] ! 0) ''day'' = Inr (JBool True)
   \<and> toNum numeric0 (safe (JBool True) (JNum (Finite (of_nat (0 + 1))))) = Inr (Finite 1)
   \<and> ''toString'' \<notin> set (map fst ([] :: (string \<times> jsval) list))
   \<and> trim ''abc'' \<noteq> [] \<and> \<not> isStrNumericLiteral (trim ''abc'')
   \<and> StringToNumber numeric0 ''abc'' = NaN"
proof -
  let ?d = "JObj [(''totalLessons'', JObj []), (''days'', JArr [JObj [(''day'', JBool True)]])]"
  let ?c = "(defaultCourse ''X'')
         \<lparr>totalLessons := NaN,
          days := [\<lparr>day = Finite 1, day_title = ''Day 1'', goals = [], concepts = [], exercises = []\<rparr>]\<rparr>"
  have run: "normalizeCourse numeric0 ?d ''X'' = Inr ?c"
    by (simp add: normalizeCourse_def normDay_def stringList_def safe_def isArray_def elems_def
        defaultCourse_def toNum_def NumberToString_def showNat.simps)
  have abc: "trim ''abc'' \<noteq> [] \<and> \<not> isStrNumericLiteral (trim ''abc'')"
    by (simp add: trim_def isSpace_def isStrNumericLiteral_def
        nonDecimalInteger_def unsignedDecimal_def isDigit_def)
  from numeric_coercion
    [of numeric0 "JObj []" "Finite 1" True "''abc''" "[]" ?d "''X''" ?c "JObj []"
      "[JObj [(''day'', JBool True)]]" 0 "JBool True"] run abc
  show ?thesis by (auto simp: safe_def toNum_def)
qed

text \<open>
  The claim as stated says the conversion never raises and gives NaN for every
  non-numeric value. For \<^verbatim>\<open>{totalLessons: {toString: 0}}\<close> the conversion throws, and
  with it \<^verbatim>\<open>normalizeCourse\<close>; and \<^verbatim>\<open>true\<close> is converted to 1.
\<close>

theorem numeric_coercion_counterexample:
  "normalizeCourse numeric0 (JObj [(''totalLessons'', JObj [(''toString'', JNum (Finite 0))])]) ''X''
     = Inl TypeError
   \<and> toNum numeric0 (JObj [(''toString'', JNum (Finite 0))]) = Inl TypeError
   \<and> toNum numeric0 (JBool True) = Inr (Finite 1)"
  by (simp add: normalizeCourse_def safe_def isArray_def elems_def toNum_def)

lemma mapE_toStr_JStr: "mapE (toStr P) (map JStr xs) = Inr xs"
  by (induction xs) simp_all

lemma stringList_JArr: "stringList P (JArr (map JStr xs)) = Inr xs"
  by (simp add: stringList_def isArray_def elems_def mapE_toStr_JStr)

lemma normDay_represents: "representsDay v d \<Longrightarrow> normDay P i v = Inr d"
  by (simp add: representsDay_def normDay_def safe_def stringList_JArr)

lemma normResource_represents: "representsResource v r \<Longrightarrow> normResource P v = Inr r"
  by (simp add: representsResource_def normResource_def safe_def)

lemma mapIdx_represents:
  "list_all2 representsDay vs ds \<Longrightarrow> mapIdx (normDay P) i vs = Inr ds"
  by (induction vs ds arbitrary: i rule: list_all2_induct) (simp_all add: normDay_represents)

lemma mapE_represents:
  "list_all2 representsResource vs rs \<Longrightarrow> mapE (normResource P) vs = Inr rs"
  by (induction vs rs rule: list_all2_induct) (simp_all add: normResource_represents)

text \<open>
  Claim C3, as amended. On a candidate that represents a course whose days and resources
  are not empty, \<^verbatim>\<open>normalizeCourse\<close> returns that course.
\<close>

theorem normalize_roundtrip:
  assumes r: "representsCourse v c" and d: "days c \<noteq> []" and s: "resources c \<noteq> []"
  shows "normalizeCourse P v topic = Inr c"
proof -
  from r obtain dvs where dvs: "getProp v ''days'' = Inr (JArr dvs)"
    and dl: "list_all2 representsDay dvs (days c)"
    by (auto simp: representsCourse_def split: sum.splits jsval.splits)
  from r obtain rvs where rvs: "getProp v ''resources'' = Inr (JArr rvs)"
    and rl: "list_all2 representsResource rvs (resources c)"
    by (auto simp: representsCourse_def split: sum.splits jsval.splits)
  from r have f: "getProp v ''title'' = Inr (JStr (title c))"
    "getProp v ''duration'' = Inr (JStr (duration c))"
    "getProp v ''summary'' = Inr (JStr (summary c))"
    "getProp v ''totalLessons'' = Inr (JNum (totalLessons c))"
    "getProp v ''estimatedTime'' = Inr (JStr (estimatedTime c))"
    by (simp_all add: representsCourse_def)
  show ?thesis
    unfolding normalizeCourse_def dvs rvs f
    using d s
    by (simp add: isArray_def elems_def safe_def mapIdx_represents[OF dl] mapE_represents[OF rl])
qed

theorem normalize_roundtrip_witness:
  "representsCourse
     (JObj [(''resources'', JArr [JObj [(''description'', JStr ''d''), (''url'', JStr ''u''),
                                        (''type'', JStr ''pdf''), (''title'', JStr ''r'')]]),
            (''days'', JArr [JObj [(''day'', JNum (Finite 1)), (''title'', JStr ''a''),
                                   (''goals'', JArr [JStr ''g'']), (''concepts'', JArr []),
                                   (''exercises'', JArr [JStr ''e'', JStr ''f''])]]),
            (''title'', JStr ''T''), (''duration'', JStr ''D''), (''summary'', JStr ''S''),
            (''totalLessons'', JNum (Finite 3)), (''estimatedTime'', JStr ''E'')])
     \<lparr>title = ''T'', duration = ''D'', summary = ''S'', totalLessons = Finite 3, estimatedTime = ''E'',
      days = [\<lparr>day = Finite 1, day_title = ''a'', goals = [''g''], concepts = [],
               exercises = [''e'', ''f'']\<rparr>],
      resources = [\<lparr>res_title = ''r'', res_type = JStr ''pdf'', url = ''u'', description = ''d''\<rparr>]\<rparr>
   \<and> normalizeCourse numeric0
     (JObj [(''resources'', JArr [JObj [(''description'', JStr ''d''), (''url'', JStr ''u''),
                                        (''type'', JStr ''pdf''), (''title'', JStr ''r'')]]),
            (''days'', JArr [JObj [(''day'', JNum (Finite 1)), (''title'', JStr ''a''),
                                   (''goals'', JArr [JStr ''g'']), (''concepts'', JArr []),
                                   (''exercises'', JArr [JStr ''e'', JStr ''f''])]]),
            (''title'', JStr ''T''), (''duration'', JStr ''D''), (''summary'', JStr ''S''),
            (''totalLessons'', JNum (Finite 3)), (''estimatedTime'', JStr ''E'')]) ''X''
     = Inr \<lparr>title = ''T'', duration = ''D'', summary = ''S'', totalLessons = Finite 3, estimatedTime = ''E'',
      days = [\<lparr>day = Finite 1, day_title = ''a'', goals = [''g''], concepts = [],
               exercises = [''e'', ''f'']\<rparr>],
      resources = [\<lparr>res_title = ''r'', res_type = JStr ''pdf'', url = ''u'', description = ''d''\<rparr>]\<rparr>"
proof -
  let ?v = "JObj [(''resources'', JArr [JObj [(''description'', JStr ''d''), (''url'', JStr ''u''),
                                        (''type'', JStr ''pdf''), (''title'', JStr ''r'')]]),
            (''days'', JArr [JObj [(''day'', JNum (Finite 1)), (''title'', JStr ''a''),
                                   (''goals'', JArr [JStr ''g'']), (''concepts'', JArr []),
                                   (''exercises'', JArr [JStr ''e'', JStr ''f''])]]),
            (''title'', JStr ''T''), (''duration'', JStr ''D''), (''summary'', JStr ''S''),
            (''totalLessons'', JNum (Finite 3)), (''estimatedTime'', JStr ''E'')]"
  let ?c = "\<lparr>title = ''T'', duration = ''D'', summary = ''S'', totalLessons = Finite 3, estimatedTime = ''E'',
      days = [\<lparr>day = Finite 1, day_title = ''a'', goals = [''g''], concepts = [],
               exercises = [''e'', ''f'']\<rparr>],
      resources = [\<lparr>res_title = ''r'', res_type = JStr ''pdf'', url = ''u'', description = ''d''\<rparr>]\<rparr>"
  have r: "representsCourse ?v ?c"
    by (simp add: representsCourse_def representsDay_def representsResource_def)
  have "days ?c \<noteq> []" "resources ?c \<noteq> []" by simp_all
  from normalize_roundtrip[OF r this, of numeric0 "''X''"] r show ?thesis by simp
qed

text \<open>
  The claim as stated covers every well-formed course. One whose \<^verbatim>\<open>days\<close> and
  \<^verbatim>\<open>resources\<close> are empty arrays has every field present with its declared type, and
  the result is a different course: it holds the fallback days and resources.
\<close>

theorem normalize_roundtrip_counterexample:
  "representsCourse
     (JObj [(''title'', JStr ''T''), (''duration'', JStr ''D''), (''summary'', JStr ''S''),
            (''totalLessons'', JNum (Finite 3)), (''estimatedTime'', JStr ''E''),
            (''days'', JArr []), (''resources'', JArr [])])
     \<lparr>title = ''T'', duration = ''D'', summary = ''S'', totalLessons = Finite 3, estimatedTime = ''E'',
      days = [], resources = []\<rparr>
   \<and> normalizeCourse numeric0
     (JObj [(''title'', JStr ''T''), (''duration'', JStr ''D''), (''summary'', JStr ''S''),
            (''totalLessons'', JNum (Finite 3)), (''estimatedTime'', JStr ''E''),
            (''days'', JArr []), (''resources'', JArr [])]) ''X''
     = Inr \<lparr>title = ''T'', duration = ''D'', summary = ''S'', totalLessons = Finite 3, estimatedTime = ''E'',
            days = dummyDays, resources = dummyResources\<rparr>
   \<and> normalizeCourse numeric0
     (JObj [(''title'', JStr ''T''), (''duration'', JStr ''D''), (''summary'', JStr ''S''),
            (''totalLessons'', JNum (Finite 3)), (''estimatedTime'', JStr ''E''),
            (''days'', JArr []), (''resources'', JArr [])]) ''X''
     \<noteq> Inr \<lparr>title = ''T'', duration = ''D'', summary = ''S'', totalLessons = Finite 3, estimatedTime = ''E'',
            days = [], resources = []\<rparr>"
  by (simp add: representsCourse_def normalizeCourse_def safe_def isArray_def elems_def
      dummyDays_def)

section \<open>The extraction of the JSON text\<close>

lemma rxMatch_Spaces_Nil: "rxMatch (Spaces # items) [] cap = rxMatch items [] cap"
  by simp

lemma rxMatch_Spaces_Cons:
  "rxMatch (Spaces # items) (x # xs) cap =
     (if isSpace x
      then (case rxMatch (Spaces # items) xs cap of
              Some r \<Rightarrow> Some r
            | None \<Rightarrow> rxMatch items (x # xs) cap)
      else rxMatch items (x # xs) cap)"
  by simp

lemma rxMatch_LazyGroup_Nil: "rxMatch (LazyGroup # items) [] cap = rxMatch items [] cap"
  by (simp split: option.splits)

lemma rxMatch_LazyGroup_Cons:
  "rxMatch (LazyGroup # items) (x # xs) cap =
     (case rxMatch items (x # xs) cap of
        Some r \<Rightarrow> Some r
      | None \<Rightarrow> rxMatch (LazyGroup # items) xs (cap @ [x]))"
  by (simp split: option.splits)

declare rxMatch.simps(3,4) [simp del]

lemma fence_not_Nil [simp]: "fence \<noteq> []" "[] \<noteq> fence"
  by (simp_all add: fence_def)

lemma not_isSpace_backquote [simp]: "\<not> isSpace (CHR 0x60)"
  by (simp add: isSpace_def)

lemma upperChar_backquote [simp]: "upperChar (CHR 0x60) = CHR 0x60"
  by (simp add: upperChar_def)

lemma upperChar_fence [simp]: "upperChar c = CHR 0x60 \<longleftrightarrow> c = CHR 0x60"
  by (auto simp: upperChar_def split: option.splits if_splits)

lemma isSpace_not_fence [simp]: "isSpace c \<Longrightarrow> c \<noteq> CHR 0x60"
  by (auto simp: isSpace_def)

lemma ciPrefix_Nil [simp]: "ciPrefix [] s"
  by (simp add: ciPrefix_def)

lemma ciPrefix_Cons:
  "ciPrefix (c # p) s \<longleftrightarrow> (case s of [] \<Rightarrow> False | x # xs \<Rightarrow> upperChar x = upperChar c \<and> ciPrefix p xs)"
  by (cases s) (auto simp: ciPrefix_def)

lemma ciPrefix_fence: "ciPrefix fence s \<longleftrightarrow> take 3 s = fence"
proof (cases s)
  case Nil
  then show ?thesis by (simp add: ciPrefix_def fence_def)
next
  case (Cons a s1)
  show ?thesis
  proof (cases s1)
    case Nil
    with Cons show ?thesis by (simp add: ciPrefix_def fence_def)
  next
    case (Cons b s2)
    note c2 = this
    show ?thesis
    proof (cases s2)
      case Nil
      with c2 \<open>s = a # s1\<close> show ?thesis by (simp add: ciPrefix_def fence_def)
    next
      case (Cons c s3)
      with c2 \<open>s = a # s1\<close> show ?thesis
        by (simp add: ciPrefix_Cons fence_def)
    qed
  qed
qed

lemma rxMatch_lits:
  "rxMatch (map Lit p @ rest) s cap
     = (if ciPrefix p s then rxMatch rest (drop (length p) s) cap else None)"
proof (induction p arbitrary: s)
  case Nil
  show ?case by simp
next
  case (Cons c p)
  show ?case
    by (cases s) (simp_all add: ciPrefix_Cons Cons.IH)
qed

lemma rxMatch_fence: "rxMatch (map Lit fence) s cap = (if take 3 s = fence then Some cap else None)"
  using rxMatch_lits[of fence "[]" s cap] by (simp add: ciPrefix_fence)

lemma closes_Cons: "closes (x # xs) = (if isSpace x then closes xs else take 3 (x # xs) = fence)"
  by (simp add: closes_def)

lemma space_not_fence_start [simp]: "isSpace x \<Longrightarrow> x # ys \<noteq> fence"
  by (auto simp: fence_def)

lemma rxMatch_closing:
  "rxMatch (Spaces # map Lit fence) s cap = (if closes s then Some cap else None)"
proof (induction s)
  case Nil
  show ?case by (simp add: rxMatch_Spaces_Nil rxMatch_fence closes_def fence_def)
next
  case (Cons x xs)
  show ?case
    by (simp add: rxMatch_Spaces_Cons Cons.IH rxMatch_fence closes_Cons)
qed

lemma rxMatch_lazy:
  "rxMatch (LazyGroup # Spaces # map Lit fence) s cap = map_option ((@) cap) (lazyCap s)"
proof (induction s arbitrary: cap)
  case Nil
  show ?case by (simp add: rxMatch_LazyGroup_Nil rxMatch_closing closes_def)
next
  case (Cons x xs)
  show ?case
    by (simp add: rxMatch_LazyGroup_Cons rxMatch_closing Cons.IH option.map_comp comp_def)
qed


lemma beforeFence_spaces:
  "list_all isSpace ws \<Longrightarrow> beforeFence (ws @ fence @ r) = Some ws"
proof (induction ws)
  case Nil
  show ?case by (simp add: fence_def)
next
  case (Cons x ws)
  then show ?case by simp
qed

lemma beforeFence_Some:
  "beforeFence s = Some a \<Longrightarrow> s = a @ fence @ drop (length a + 3) s"
proof (induction s arbitrary: a)
  case Nil
  then show ?case by simp
next
  case (Cons x xs)
  show ?case
  proof (cases "take 3 (x # xs) = fence")
    case True
    with Cons.prems have a: "a = []" by simp
    from True have "x # xs = fence @ drop 3 (x # xs)"
      by (metis append_take_drop_id)
    then show ?thesis
      unfolding a by (simp only: append_Nil list.size add_0)
  next
    case False
    with Cons.prems obtain a' where a': "beforeFence xs = Some a'" "a = x # a'"
      by auto
    from Cons.IH[OF a'(1)] have "x # xs = (x # a') @ fence @ drop (length a' + 3) xs"
      by (metis append_Cons)
    moreover have "length (x # a') + 3 = Suc (length a' + 3)"
      by simp
    then have "drop (length (x # a') + 3) (x # xs) = drop (length a' + 3) xs"
      by (simp only: drop_Suc_Cons)
    ultimately show ?thesis
      unfolding a'(2) by (simp only:)
  qed
qed

lemma closes_spaces: "list_all isSpace ws \<Longrightarrow> closes (ws @ fence @ r)"
  by (induction ws) (simp_all add: closes_def fence_def)

lemma rstrip_spaces: "list_all isSpace ws \<Longrightarrow> rstrip ws = []"
  by (simp add: rstrip_def list_all_iff)

lemma rstrip_Cons:
  "rstrip (x # a) = (if list_all isSpace a \<and> isSpace x then [] else x # rstrip a)"
  by (auto simp: rstrip_def dropWhile_append list_all_iff)

lemma beforeFence_dropWhile:
  "beforeFence (dropWhile isSpace s) = map_option (dropWhile isSpace) (beforeFence s)"
proof (induction s)
  case Nil
  show ?case by simp
next
  case (Cons x xs)
  show ?case
  proof (cases "isSpace x")
    case True
    with Cons.IH show ?thesis
      by (simp add: option.map_comp comp_def)
  next
    case False
    then show ?thesis
      by (simp add: option.map_comp comp_def)
  qed
qed

lemma lazyCap_beforeFence: "lazyCap s = map_option rstrip (beforeFence s)"
proof (induction s)
  case Nil
  show ?case by simp
next
  case (Cons x xs)
  show ?case
  proof (cases "closes (x # xs)")
    case True
    define ws where "ws = takeWhile isSpace (x # xs)"
    have ws: "list_all isSpace ws"
      by (simp add: ws_def list_all_iff) (meson set_takeWhileD)
    from True have "x # xs = ws @ fence @ drop 3 (dropWhile isSpace (x # xs))"
      unfolding closes_def ws_def
      by (metis append_take_drop_id takeWhile_dropWhile_id)
    then have "beforeFence (x # xs) = Some ws"
      using beforeFence_spaces[OF ws] by metis
    with True ws show ?thesis
      by (simp add: rstrip_spaces)
  next
    case False
    then have nf: "take 3 (x # xs) \<noteq> fence"
      by (auto simp: closes_Cons split: if_splits)
    show ?thesis
    proof (cases "beforeFence xs")
      case None
      with False nf Cons.IH show ?thesis by simp
    next
      case (Some a)
      have "\<not> (list_all isSpace a \<and> isSpace x)"
      proof
        assume h: "list_all isSpace a \<and> isSpace x"
        from beforeFence_Some[OF Some] have "x # xs = (x # a) @ fence @ drop (length a + 3) xs"
          by simp
        moreover from h have "list_all isSpace (x # a)" by simp
        ultimately have "closes (x # xs)"
          using closes_spaces by metis
        with False show False by simp
      qed
      with False nf Cons.IH Some show ?thesis
        by (simp add: rstrip_Cons)
    qed
  qed
qed


lemma beforeFence_space: "isSpace x \<Longrightarrow> beforeFence (x # xs) = map_option ((#) x) (beforeFence xs)"
  by simp

lemma lazyCap_None_space: "isSpace x \<Longrightarrow> lazyCap (x # xs) = None \<longleftrightarrow> lazyCap xs = None"
  by (simp add: lazyCap_beforeFence)

lemma lazyCap_None_dropWhile: "lazyCap (dropWhile isSpace s) = None \<longleftrightarrow> lazyCap s = None"
  by (simp add: lazyCap_beforeFence beforeFence_dropWhile)

lemma rxMatch_body:
  "rxMatch (Spaces # LazyGroup # Spaces # map Lit fence) s cap
     = map_option ((@) cap) (lazyCap (dropWhile isSpace s))"
proof (induction s)
  case Nil
  show ?case by (simp add: rxMatch_Spaces_Nil rxMatch_lazy)
next
  case (Cons x xs)
  show ?case
  proof (cases "isSpace x")
    case False
    then show ?thesis by (simp add: rxMatch_Spaces_Cons rxMatch_lazy)
  next
    case True
    show ?thesis
    proof (cases "lazyCap (dropWhile isSpace xs)")
      case (Some a)
      with True Cons.IH show ?thesis by (simp add: rxMatch_Spaces_Cons)
    next
      case None
      then have "lazyCap (x # xs) = None"
        using True by (simp only: lazyCap_None_space lazyCap_None_dropWhile)
      with None True Cons.IH show ?thesis
        by (simp add: rxMatch_Spaces_Cons rxMatch_lazy)
    qed
  qed
qed

lemma trim_rstrip: "trim s = rstrip (dropWhile isSpace s)"
  by (simp add: trim_def rstrip_def)

lemma rxMatch_fenced:
  "rxMatch (map Lit opener @ [Spaces, LazyGroup, Spaces] @ map Lit fence) s []
     = (if ciPrefix opener s then map_option trim (beforeFence (drop (length opener) s)) else None)"
proof -
  have "map_option ((@) []) (lazyCap (dropWhile isSpace t)) = map_option trim (beforeFence t)" for t
    by (cases "beforeFence t")
      (simp_all add: lazyCap_beforeFence beforeFence_dropWhile trim_def rstrip_def)
  then show ?thesis
    using rxMatch_body by (simp add: rxMatch_lits)
qed

lemma beforeFence_None_drop: "beforeFence s = None \<Longrightarrow> beforeFence (drop k s) = None"
proof (induction s arbitrary: k)
  case Nil
  show ?case by simp
next
  case (Cons x xs)
  then have "beforeFence xs = None" by (auto split: if_splits)
  with Cons show ?case by (cases k) simp_all
qed

lemma afterOpener_Some: "afterOpener p s = Some b \<Longrightarrow> \<exists>k. b = drop (k + length p) s"
proof (induction s)
  case Nil
  then show ?case by (auto split: if_splits)
next
  case (Cons x xs)
  show ?case
  proof (cases "ciPrefix p (x # xs)")
    case True
    with Cons.prems have "b = drop (0 + length p) (x # xs)" by simp
    then show ?thesis by blast
  next
    case False
    with Cons obtain k where "b = drop (k + length p) xs" by auto
    then have "b = drop (Suc k + length p) (x # xs)" by simp
    then show ?thesis by blast
  qed
qed

lemma fencedBlock_Cons:
  "fencedBlock opener (x # xs)
     = (if ciPrefix opener (x # xs)
        then map_option trim (beforeFence (drop (length opener) (x # xs)))
        else fencedBlock opener xs)"
  by (simp add: fencedBlock_def)

lemma fencedBlock_after_None:
  assumes "beforeFence (drop (length opener) (x # xs)) = None"
  shows "fencedBlock opener xs = None"
proof (cases "afterOpener opener xs")
  case None
  then show ?thesis by (simp add: fencedBlock_def)
next
  case (Some b)
  from afterOpener_Some[OF Some] obtain k where "b = drop (k + length opener) xs" ..
  then have "b = drop (Suc k) (drop (length opener) (x # xs))"
    by (simp only: drop_drop add_Suc drop_Suc_Cons)
  with beforeFence_None_drop[OF assms, of "Suc k"] have "beforeFence b = None"
    by simp
  with Some show ?thesis by (simp add: fencedBlock_def)
qed

lemma rxSearch_fenced:
  "rxSearch (map Lit opener @ [Spaces, LazyGroup, Spaces] @ map Lit fence) text
     = fencedBlock opener text"
proof (induction "text")
  case Nil
  have "fencedBlock opener [] = None"
    by (simp add: fencedBlock_def)
  moreover have "rxMatch (map Lit opener @ [Spaces, LazyGroup, Spaces] @ map Lit fence) [] [] = None"
    unfolding rxMatch_fenced by simp
  ultimately show ?case
    by (simp only: rxSearch.simps)
next
  case (Cons x xs)
  let ?rx = "map Lit opener @ [Spaces, LazyGroup, Spaces] @ map Lit fence"
  have s: "rxSearch ?rx (x # xs)
      = (case rxMatch ?rx (x # xs) [] of Some cap \<Rightarrow> Some cap | None \<Rightarrow> rxSearch ?rx xs)"
    by (rule rxSearch.simps(2))
  show ?case
  proof (cases "ciPrefix opener (x # xs)")
    case False
    then show ?thesis
      unfolding s rxMatch_fenced fencedBlock_Cons Cons.IH by simp
  next
    case True
    show ?thesis
    proof (cases "beforeFence (drop (length opener) (x # xs))")
      case (Some a)
      with True show ?thesis
        unfolding s rxMatch_fenced fencedBlock_Cons Cons.IH by simp
    next
      case None
      from fencedBlock_after_None[OF None] None True show ?thesis
        unfolding s rxMatch_fenced fencedBlock_Cons Cons.IH by simp
    qed
  qed
qed

lemma rstrip_idem: "rstrip (rstrip s) = rstrip s"
  by (simp add: rstrip_def)

lemma dropWhile_rstrip: "dropWhile isSpace (rstrip s) = rstrip (dropWhile isSpace s)"
proof (induction s)
  case Nil
  show ?case by (simp add: rstrip_def)
next
  case (Cons x xs)
  show ?case
  proof (cases "isSpace x")
    case True
    with Cons.IH show ?thesis
      by (auto simp: rstrip_Cons rstrip_spaces list_all_iff)
  next
    case False
    then show ?thesis by (simp add: rstrip_Cons)
  qed
qed

lemma trim_idem: "trim (trim s) = trim s"
  by (simp add: trim_rstrip dropWhile_rstrip rstrip_idem)

lemma fencedBlock_trimmed: "fencedBlock opener text = Some inner \<Longrightarrow> trim inner = inner"
  by (auto simp: fencedBlock_def trim_idem split: option.splits)


lemma extractJson_eq_spec: "extractJson text = extractJsonSpec text"
proof -
  have j: "rxSearch jsonFenceRx text = fencedBlock (fence @ ''json'') text"
    unfolding jsonFenceRx_def by (rule rxSearch_fenced)
  have p: "rxSearch plainFenceRx text = fencedBlock fence text"
    unfolding plainFenceRx_def by (rule rxSearch_fenced)
  show ?thesis
    unfolding extractJson_def extractJsonSpec_def j p
    by (auto split: option.splits dest: fencedBlock_trimmed)
qed

text \<open>
  Claim C4. \<^verbatim>\<open>extractJson\<close> is a function of its text alone, defined on every text, and
  it computes what the specification says: the inner content of the first fenced block, a
  fence tagged \<^verbatim>\<open>json\<close> looked for before an untagged one, and the trimmed text when
  there is no fenced block. On the fenced and on the plain text of the specification's
  example it returns \<^verbatim>\<open>{"a":1}\<close>.
\<close>

theorem extractJson_meets_specification:
  "extractJson text = extractJsonSpec text
   \<and> extractJson (fence @ ''json'' @ [CHR 0x0A]
        @ [CHR ''{'', CHR 0x22, CHR ''a'', CHR 0x22, CHR '':'', CHR ''1'', CHR ''}'']
        @ [CHR 0x0A] @ fence)
       = [CHR ''{'', CHR 0x22, CHR ''a'', CHR 0x22, CHR '':'', CHR ''1'', CHR ''}'']
   \<and> extractJson [CHR ''{'', CHR 0x22, CHR ''a'', CHR 0x22, CHR '':'', CHR ''1'', CHR ''}'']
       = [CHR ''{'', CHR 0x22, CHR ''a'', CHR 0x22, CHR '':'', CHR ''1'', CHR ''}'']"
proof -
  have "extractJsonSpec (fence @ ''json'' @ [CHR 0x0A]
        @ [CHR ''{'', CHR 0x22, CHR ''a'', CHR 0x22, CHR '':'', CHR ''1'', CHR ''}'']
        @ [CHR 0x0A] @ fence)
       = [CHR ''{'', CHR 0x22, CHR ''a'', CHR 0x22, CHR '':'', CHR ''1'', CHR ''}'']"
    by (simp add: extractJsonSpec_def fencedBlock_def ciPrefix_def fence_def upperChar_def
        trim_def isSpace_def)
  moreover have "extractJsonSpec [CHR ''{'', CHR 0x22, CHR ''a'', CHR 0x22, CHR '':'', CHR ''1'', CHR ''}'']
       = [CHR ''{'', CHR 0x22, CHR ''a'', CHR 0x22, CHR '':'', CHR ''1'', CHR ''}'']"
    by (simp add: extractJsonSpec_def fencedBlock_def ciPrefix_def fence_def upperChar_def
        trim_def isSpace_def)
  ultimately show ?thesis
    by (simp only: extractJson_eq_spec simp_thms)
qed

text \<open>
  The matcher itself on a text with two blocks: the tag is found in capitals, and the
  first block wins.
\<close>

lemma extractJson_example_by_matcher:
  "extractJson (fence @ ''JSON'' @ [CHR 0x0A]
        @ [CHR ''{'', CHR 0x22, CHR ''a'', CHR 0x22, CHR '':'', CHR ''1'', CHR ''}'']
        @ [CHR 0x0A] @ fence @ '' and '' @ fence @ ''x'' @ fence)
       = [CHR ''{'', CHR 0x22, CHR ''a'', CHR 0x22, CHR '':'', CHR ''1'', CHR ''}'']"
  by (simp add: extractJson_def jsonFenceRx_def fence_def upperChar_def isSpace_def trim_def
      rxMatch.simps)

section \<open>Input validation of the request\<close>

text \<open>
  Claim C9. A request whose body has no \<^verbatim>\<open>topic\<close> field, or whose \<^verbatim>\<open>topic\<close> is not a
  string, is answered with status 400 and a body that holds an error message, and the
  external model is not called: the list of model calls is empty, whatever the model
  would have answered.
\<close>

theorem invalid_topic_rejected:
  "(map_of kvs ''topic'' = None \<longrightarrow>
      postGenerateCourse P gemini (JObj kvs)
        = (Responded 400 (ErrorBody ''Topic is required (string)''), []))
   \<and> (getProp reqBody ''topic'' = Inr t \<and> typeOf t \<noteq> ''string'' \<longrightarrow>
      postGenerateCourse P gemini reqBody
        = (Responded 400 (ErrorBody ''Topic is required (string)''), []))"
  by (simp add: postGenerateCourse_def falsy_def typeOf_def)

theorem invalid_topic_rejected_witness:
  "map_of ([] :: (string \<times> jsval) list) ''topic'' = None
   \<and> postGenerateCourse numeric0 (\<lambda>t. Inr ''{}'') (JObj [])
        = (Responded 400 (ErrorBody ''Topic is required (string)''), [])
   \<and> getProp (JObj [(''topic'', JNum (Finite 4))]) ''topic'' = Inr (JNum (Finite 4))
   \<and> typeOf (JNum (Finite 4)) \<noteq> ''string''
   \<and> postGenerateCourse numeric0 (\<lambda>t. Inr ''{}'') (JObj [(''topic'', JNum (Finite 4))])
        = (Responded 400 (ErrorBody ''Topic is required (string)''), [])"
  using invalid_topic_rejected
    [of "[]" numeric0 "\<lambda>t. Inr ''{}''" "JObj [(''topic'', JNum (Finite 4))]" "JNum (Finite 4)"]
  by (simp add: typeOf_def)

text \<open>
  Claim C10. A request whose \<^verbatim>\<open>topic\<close> is the empty string is rejected in the same way:
  the test \<^verbatim>\<open>!topic\<close> holds for every falsy value, and the empty string is one.
\<close>

theorem empty_topic_rejected:
  "getProp reqBody ''topic'' = Inr (JStr []) \<Longrightarrow>
     postGenerateCourse P gemini reqBody
       = (Responded 400 (ErrorBody ''Topic is required (string)''), [])"
  by (simp add: postGenerateCourse_def falsy_def)

theorem empty_topic_rejected_witness:
  "getProp (JObj [(''topic'', JStr [])]) ''topic'' = Inr (JStr [])
   \<and> postGenerateCourse numeric0 (\<lambda>t. Inr ''{}'') (JObj [(''topic'', JStr [])])
       = (Responded 400 (ErrorBody ''Topic is required (string)''), [])"
  using empty_topic_rejected [of "JObj [(''topic'', JStr [])]" numeric0 "\<lambda>t. Inr ''{}''"]
  by simp


section \<open>The parser consumes what it reads\<close>

lemma parseChars_shorter: "parseChars s = Some (t, r) \<Longrightarrow> length r < length s"
proof (induction "length s" arbitrary: s t r rule: less_induct)
  case less
  show ?case
  proof (cases s)
    case Nil
    with less.prems show ?thesis by simp
  next
    case (Cons c cs)
    have ih: "length r' < length s'"
      if "parseChars s' = Some (t', r')" "length s' \<le> length cs" for s' t' r'
    proof -
      from that(2) Cons have "length s' < length s" by simp
      from less.hyps[OF this that(1)] show ?thesis .
    qed
    from less.prems Cons show ?thesis
      by (auto split: if_splits list.splits option.splits dest!: ih)
  qed
qed

lemma scanNumber_shorter:
  assumes "scanNumber s = Some (t, r)"
  shows "length r < length s"
proof -
  define sign where "sign = takeWhile (\<lambda>c. c = CHR ''-'') (take 1 s)"
  define r0 where "r0 = drop (length sign) s"
  define ip where "ip = (if take 1 r0 = ''0'' then ''0'' else takeWhile isDigit r0)"
  define r1 where "r1 = drop (length ip) r0"
  from assms have ip: "ip \<noteq> []"
    unfolding scanNumber_def Let_def sign_def[symmetric] r0_def[symmetric] ip_def[symmetric]
    by (auto split: if_splits)
  from assms have r: "length r \<le> length r1"
    unfolding scanNumber_def Let_def sign_def[symmetric] r0_def[symmetric] ip_def[symmetric]
      r1_def[symmetric]
    by (auto split: if_splits)
  have "length ip \<le> length r0"
  proof (cases "take 1 r0 = ''0''")
    case True
    then have "r0 \<noteq> []" by auto
    with True show ?thesis by (cases r0) (simp_all add: ip_def)
  next
    case False
    then show ?thesis by (simp add: ip_def length_takeWhile_le)
  qed
  with ip have "length r1 < length r0"
    by (cases ip) (simp_all add: r1_def)
  moreover have "length r0 \<le> length s" by (simp add: r0_def)
  moreover note r
  ultimately show ?thesis by simp
qed


lemma skipWs_length: "length (skipWs s) \<le> length s"
  by (simp add: skipWs_def length_dropWhile_le)

lemma skipWs_Cons_length: "skipWs s = c # cs \<Longrightarrow> length cs < length s"
  using skipWs_length[of s] by simp

lemma parse_shorter:
  "(parseValue P s = Some (v, r) \<longrightarrow> length r < length s)
   \<and> (parseElems P s = Some (vs, r) \<longrightarrow> length r < length s)
   \<and> (parseMembers P acc s = Some (v, r) \<longrightarrow> length r < length s)"
proof (induction "length s" arbitrary: s v r vs acc rule: less_induct)
  case less
  have ihE: "length r' < length s'"
    if "parseElems P s' = Some (vs', r')" "length s' < length s" for s' vs' r'
    using less.hyps[OF that(2)] that(1) by blast
  have ihM: "length r' < length s'"
    if "parseMembers P acc' s' = Some (v', r')" "length s' < length s" for s' acc' v' r'
    using less.hyps[OF that(2)] that(1) by blast
  have ihV: "length r' < length s'"
    if "parseValue P s' = Some (v', r')" "length s' < length s" for s' v' r'
    using less.hyps[OF that(2)] that(1) by blast
  have p1: "length r' < length s" if pv: "parseValue P s = Some (v', r')" for v' r'
  proof (cases "skipWs s")
    case Nil
    with pv show ?thesis by (simp add: parseValue.simps)
  next
    case (Cons c cs)
    note cs = skipWs_Cons_length[OF Cons]
    consider (obj) "c = CHR ''{''" | (arr) "c \<noteq> CHR ''{''" "c = CHR ''[''"
      | (str) "c \<noteq> CHR ''{''" "c \<noteq> CHR ''[''" "c = CHR 0x22"
      | (other) "c \<noteq> CHR ''{''" "c \<noteq> CHR ''[''" "c \<noteq> CHR 0x22"
      by blast
    then show ?thesis
    proof cases
      case obj
      show ?thesis
      proof (cases "skipWs cs")
        case Nil
        with pv Cons obj show ?thesis by (simp add: parseValue.simps)
      next
        case (Cons d ds)
        note ds = skipWs_Cons_length[OF Cons]
        show ?thesis
        proof (cases "d = CHR ''}''")
          case True
          with pv \<open>skipWs s = c # cs\<close> obj Cons have "r' = ds"
            by (simp add: parseValue.simps)
          with ds cs show ?thesis by simp
        next
          case False
          with pv \<open>skipWs s = c # cs\<close> obj Cons have "parseMembers P [] cs = Some (v', r')"
            by (simp add: parseValue.simps)
          from ihM[OF this cs] cs show ?thesis by simp
        qed
      qed
    next
      case arr
      show ?thesis
      proof (cases "skipWs cs")
        case Nil
        with pv Cons arr show ?thesis by (simp add: parseValue.simps)
      next
        case (Cons d ds)
        note ds = skipWs_Cons_length[OF Cons]
        show ?thesis
        proof (cases "d = CHR '']''")
          case True
          with pv \<open>skipWs s = c # cs\<close> arr Cons have "r' = ds"
            by (simp add: parseValue.simps)
          with ds cs show ?thesis by simp
        next
          case False
          with pv \<open>skipWs s = c # cs\<close> arr Cons obtain vs' where
            "parseElems P cs = Some (vs', r')"
            by (auto simp: parseValue.simps)
          from ihE[OF this cs] cs show ?thesis by simp
        qed
      qed
    next
      case str
      with pv Cons obtain t where "parseChars cs = Some (t, r')"
        by (auto simp: parseValue.simps)
      from parseChars_shorter[OF this] cs show ?thesis by simp
    next
      case other
      have le: "length (c # cs) \<le> length s"
        using skipWs_length[of s] Cons by simp
      from pv Cons other consider "r' = drop 4 (c # cs)" | "r' = drop 5 (c # cs)"
        | t where "scanNumber (c # cs) = Some (t, r')"
        by (auto simp: parseValue.simps split: if_splits)
      then show ?thesis
      proof cases
        case 1
        with le show ?thesis by simp
      next
        case 2
        with le show ?thesis by simp
      next
        case 3
        from scanNumber_shorter[OF 3] le show ?thesis by simp
      qed
    qed
  qed
  have p2: "length r' < length s" if pe: "parseElems P s = Some (vs', r')" for vs' r'
  proof -
    from pe obtain v1 r1 where v1: "parseValue P s = Some (v1, r1)"
      by (auto simp: parseElems.simps split: option.splits)
    note r1 = p1[OF v1]
    show ?thesis
    proof (cases "skipWs r1")
      case Nil
      with pe v1 show ?thesis by (simp add: parseElems.simps)
    next
      case (Cons d ds)
      note ds = skipWs_Cons_length[OF Cons]
      show ?thesis
      proof (cases "d = CHR '']''")
        case True
        with pe v1 Cons have "r' = ds" by (simp add: parseElems.simps)
        with ds r1 show ?thesis by simp
      next
        case False
        with pe v1 Cons obtain vs2 where "parseElems P ds = Some (vs2, r')" "length ds < length s"
          by (auto simp: parseElems.simps split: if_splits)
        from ihE[OF this] this(2) show ?thesis by simp
      qed
    qed
  qed
  have p3: "length r' < length s" if pm: "parseMembers P acc' s = Some (v', r')" for acc' v' r'
  proof -
    from pm obtain cs where s: "skipWs s = CHR 0x22 # cs"
      by (auto simp: parseMembers.simps split: list.splits if_splits)
    from pm s obtain k r0 where k: "parseChars cs = Some (k, r0)"
      by (auto simp: parseMembers.simps split: option.splits)
    from pm s k obtain r1 where r1: "skipWs r0 = CHR '':'' # r1" "length r1 < length s"
      by (auto simp: parseMembers.simps split: list.splits if_splits)
    from pm s k r1 obtain v1 r2 where v1: "parseValue P r1 = Some (v1, r2)"
      by (auto simp: parseMembers.simps split: option.splits)
    from ihV[OF v1 r1(2)] have r2: "length r2 < length r1" .
    show ?thesis
    proof (cases "skipWs r2")
      case Nil
      with pm s k r1 v1 show ?thesis by (simp add: parseMembers.simps)
    next
      case (Cons d ds)
      note ds = skipWs_Cons_length[OF Cons]
      show ?thesis
      proof (cases "d = CHR ''}''")
        case True
        with pm s k r1 v1 Cons have "r' = ds" by (simp add: parseMembers.simps)
        with ds r2 r1(2) show ?thesis by simp
      next
        case False
        with pm s k r1 v1 Cons have "parseMembers P (setProp k v1 acc') ds = Some (v', r')"
          "length ds < length s"
          by (auto simp: parseMembers.simps split: if_splits)
        from ihM[OF this] this(2) show ?thesis by simp
      qed
    qed
  qed
  from p1 p2 p3 show ?case by blast
qed


lemma parseValue_shorter: "parseValue P s = Some (v, r) \<Longrightarrow> length r < length s"
  using parse_shorter[of P s v r] by blast

text \<open>The equations of the parser without the tests on the lengths.\<close>

lemma parseElems_unguarded:
  "parseElems P s =
     (case parseValue P s of
        None \<Rightarrow> None
      | Some (v, r) \<Rightarrow>
          (case skipWs r of
             [] \<Rightarrow> None
           | d # ds \<Rightarrow>
               if d = CHR '']'' then Some ([v], ds)
               else if d = CHR '','' then map_option (\<lambda>(vs, r'). (v # vs, r')) (parseElems P ds)
               else None))"
proof (cases "parseValue P s")
  case None
  then show ?thesis by (simp add: parseElems.simps)
next
  case (Some p)
  obtain v r where p: "p = (v, r)" by (cases p)
  from Some p have r: "length r < length s" by (simp add: parseValue_shorter)
  show ?thesis
  proof (cases "skipWs r")
    case Nil
    with Some p show ?thesis by (simp add: parseElems.simps)
  next
    case (Cons d ds)
    from skipWs_Cons_length[OF Cons] r have "length ds < length s" by simp
    with Some p Cons show ?thesis by (simp add: parseElems.simps)
  qed
qed

lemma parseMembers_unguarded:
  "parseMembers P acc s =
     (case skipWs s of
        [] \<Rightarrow> None
      | q # cs \<Rightarrow>
          if q = CHR 0x22 then
            (case parseChars cs of
               None \<Rightarrow> None
             | Some (k, r) \<Rightarrow>
                 (case skipWs r of
                    [] \<Rightarrow> None
                  | c # r1 \<Rightarrow>
                      if c = CHR '':'' then
                        (case parseValue P r1 of
                           None \<Rightarrow> None
                         | Some (v, r2) \<Rightarrow>
                             (case skipWs r2 of
                                [] \<Rightarrow> None
                              | d # ds \<Rightarrow>
                                  if d = CHR ''}'' then Some (JObj (setProp k v acc), ds)
                                  else if d = CHR '','' then parseMembers P (setProp k v acc) ds
                                  else None))
                      else None))
          else None)"
proof (cases "skipWs s")
  case Nil
  then show ?thesis by (simp add: parseMembers.simps)
next
  case (Cons q cs)
  note cs = skipWs_Cons_length[OF Cons]
  show ?thesis
  proof (cases "parseChars cs")
    case None
    with Cons show ?thesis by (simp add: parseMembers.simps)
  next
    case (Some p)
    obtain k r where p: "p = (k, r)" by (cases p)
    from Some p have r: "length r < length cs" by (simp add: parseChars_shorter)
    show ?thesis
    proof (cases "skipWs r")
      case Nil
      with Cons Some p show ?thesis by (simp add: parseMembers.simps)
    next
      case c: (Cons c r1)
      from skipWs_Cons_length[OF c] r cs have r1: "length r1 < length s" by simp
      show ?thesis
      proof (cases "parseValue P r1")
        case None
        with Cons Some p c r1 show ?thesis by (simp add: parseMembers.simps)
      next
        case v: (Some pv)
        obtain v1 r2 where pv: "pv = (v1, r2)" by (cases pv)
        from v pv have r2: "length r2 < length r1" by (simp add: parseValue_shorter)
        show ?thesis
        proof (cases "skipWs r2")
          case Nil
          with Cons Some p c r1 v pv show ?thesis by (simp add: parseMembers.simps)
        next
          case d: (Cons d ds)
          from skipWs_Cons_length[OF d] r2 r1 have "length ds < length s" by simp
          with Cons Some p c r1 v pv d show ?thesis by (simp add: parseMembers.simps)
        qed
      qed
    qed
  qed
qed

section \<open>The fallback path of the request handler\<close>

text \<open>What the handler does, for any topic, when the call of the model fails.\<close>

lemma postGenerateCourse_fallback:
  assumes "gemini t = Inl e" and "t \<noteq> []"
  shows "postGenerateCourse P gemini (JObj ((''topic'', JStr t) # kvs))
     = (case andThen (fallbackCourse P t) (\<lambda>fallback. normalizeCourse P fallback t) of
          Inr normalized \<Rightarrow> (Responded 200 (CourseBody normalized), [t])
        | Inl e' \<Rightarrow> (Rejected e', [t]))"
  using assms
  by (simp add: postGenerateCourse_def falsy_def typeOf_def strOf_def generateCourseFromGemini_def
      split: sum.splits)

lemma commaSep_Cons: "commaSep (x # l) = x @ (if l = [] then [] else '','' @ commaSep l)"
  by (cases l) simp_all

lemma stringify_dummy_prefix:
  "\<exists>z. stringify P dummyCourse
     = Some (''{'' @ quoteString ''title'' @ '':'' @ quoteString ''Master {{TOPIC}}'' @ z)"
  unfolding dummyCourse_def
  by (simp only: stringify.simps stringifyProps.simps option.case commaSep_Cons append_assoc) blast

lemma replaceFrom_match:
  "pat \<noteq> [] \<Longrightarrow> take (length pat) s = pat \<Longrightarrow>
     replaceFrom pat repl pre s
       = getSubstitution pat pre (drop (length pat) s) repl
         @ replaceFrom pat repl (pre @ pat) (drop (length pat) s)"
  by (subst replaceFrom.simps) simp

lemma replaceFrom_skip:
  "take (length pat) (c # cs) \<noteq> pat \<Longrightarrow>
     replaceFrom pat repl pre (c # cs) = c # replaceFrom pat repl (pre @ [c]) cs"
  by (subst replaceFrom.simps) simp

lemma replace_quote_prefix:
  "\<exists>y. replaceAll (''{'' @ quoteString ''title'' @ '':'' @ quoteString ''Master {{TOPIC}}'' @ z)
          ''{{TOPIC}}'' [CHR ''a'', CHR 0x22, CHR ''b'']
     = ''{'' @ quoteString ''title'' @ '':'' @ [CHR 0x22] @ ''Master a'' @ [CHR 0x22] @ ''b'' @ y"
  by (simp add: replaceAll_def quoteString_def quoteChar_def replaceFrom_match replaceFrom_skip)

lemma parse_quote_prefix:
  "JSON_parse P (''{'' @ quoteString ''title'' @ '':'' @ [CHR 0x22] @ ''Master a'' @ [CHR 0x22] @ ''b'' @ y)
     = Inl SyntaxError"
  by (simp add: JSON_parse_def quoteString_def quoteChar_def parseValue.simps parseMembers.simps
      skipWs_def isJsonSpace_def unescape_def)

lemma fallbackCourse_quote: "fallbackCourse P [CHR ''a'', CHR 0x22, CHR ''b''] = Inl SyntaxError"
proof -
  from stringify_dummy_prefix[of P] obtain z where
    z: "stringify P dummyCourse
        = Some (''{'' @ quoteString ''title'' @ '':'' @ quoteString ''Master {{TOPIC}}'' @ z)" ..
  from replace_quote_prefix[of z] obtain y where
    y: "replaceAll (''{'' @ quoteString ''title'' @ '':'' @ quoteString ''Master {{TOPIC}}'' @ z)
          ''{{TOPIC}}'' [CHR ''a'', CHR 0x22, CHR ''b'']
     = ''{'' @ quoteString ''title'' @ '':'' @ [CHR 0x22] @ ''Master a'' @ [CHR 0x22] @ ''b'' @ y" ..
  show ?thesis
    unfolding fallbackCourse_def z option.case y by (rule parse_quote_prefix)
qed

text \<open>
  Claim C2 says that a request with a valid topic always ends in a course, also when the
  call of the model fails. The code departs from it: the topic is put into the serialised
  template as it is, so a topic that holds a double quote gives a text that is not JSON.
  For the topic \<^verbatim>\<open>a"b\<close> and a model call that fails, \<^verbatim>\<open>JSON.parse\<close> throws a
  SyntaxError inside the \<^verbatim>\<open>catch\<close> block, nothing catches it, and the handler's
  promise is rejected without an answer.
\<close>

theorem fallback_breaks_on_quote:
  "postGenerateCourse P (\<lambda>t. Inl e) (JObj ((''topic'', JStr [CHR ''a'', CHR 0x22, CHR ''b'']) # kvs))
     = (Rejected SyntaxError, [[CHR ''a'', CHR 0x22, CHR ''b'']])"
  by (simp add: postGenerateCourse_def falsy_def typeOf_def strOf_def generateCourseFromGemini_def
      fallbackCourse_quote)

end
